theory Spec2Isabelle
  imports Complex_Main "HOL-Library.Monad_Syntax"
begin

section \<open>Numbers, dates and the arithmetic built-ins\<close>

text \<open>
  The source is TypeScript; every quantity has the type \<open>number\<close>. The embedding reads
  a \<open>number\<close> as an exact value: amounts of money are whole cents (\<open>int\<close>; the
  constants module says "All monetary values are in cents", and the storage schema
  keeps them, the year counts and the week counts in integer columns), rates and
  derived fractional amounts are \<open>real\<close>. Rounding error of binary floating point is
  not part of the model. A value that is not a finite number in the source (the
  quotient by zero, a power that is \<open>NaN\<close> or infinite) is \<open>None\<close> here, and a
  computation that meets one yields \<open>None\<close>.
\<close>

type_synonym Date = int
  \<comment> \<open>a \<open>Date\<close> by its \<open>getTime()\<close>, milliseconds since the epoch\<close>

type_synonym MonthOfDate = "Date \<times> int"
  \<comment> \<open>\<open>(d, k)\<close>: a copy of \<open>d\<close> after \<open>setMonth(getMonth() + k)\<close>\<close>

definition Math_round :: "real \<Rightarrow> int" where
  "Math_round x = \<lfloor>x + 1 / 2\<rfloor>"
  \<comment> \<open>\<open>Math.round\<close>: the nearest integer, a tie going up\<close>

definition divide_js :: "real \<Rightarrow> real \<Rightarrow> real option" where
  "divide_js x y = (if y = 0 then None else Some (x / y))"
  \<comment> \<open>\<open>x / y\<close>; with \<open>y = 0\<close> the source gets \<open>NaN\<close> or an infinity\<close>

definition Math_pow :: "real \<Rightarrow> real \<Rightarrow> real option" where
  "Math_pow x y =
     (if y = of_int \<lfloor>y\<rfloor> then
        (if 0 \<le> y then Some (x ^ nat \<lfloor>y\<rfloor>)
         else if x = 0 then None
         else Some (1 / x ^ nat (- \<lfloor>y\<rfloor>)))
      else if 0 < x then Some (x powr y)
      else if x = 0 \<and> 0 < y then Some 0
      else None)"
  \<comment> \<open>\<open>Math.pow\<close>: a whole exponent is repeated multiplication; a fractional one
      needs a positive base (zero to a positive power is zero), else the source gets
      \<open>NaN\<close> or an infinity\<close>

section \<open>constants.ts: loan formulas\<close>

definition MONTHS_PER_YEAR :: int where
  "MONTHS_PER_YEAR = 12"

text \<open>
  The two branches of \<open>calculateMonthlyPayment\<close> are named, so that a statement can say
  which one ran: \<open>straightLinePayment\<close> is \<open>Math.round(principalCents / totalPayments)\<close>,
  \<open>amortizedPayment\<close> is the rounded amortization formula.
\<close>

definition straightLinePayment :: "real \<Rightarrow> real \<Rightarrow> int option" where
  "straightLinePayment principalCents totalPayments =
     map_option Math_round (divide_js principalCents totalPayments)"

definition amortizedPayment :: "real \<Rightarrow> real \<Rightarrow> real \<Rightarrow> int option" where
  "amortizedPayment principalCents monthlyRate totalPayments =
     do {
       growth \<leftarrow> Math_pow (1 + monthlyRate) totalPayments;
       monthlyPayment \<leftarrow> divide_js (principalCents * (monthlyRate * growth)) (growth - 1);
       Some (Math_round monthlyPayment)
     }"

definition calculateMonthlyPayment :: "real \<Rightarrow> real \<Rightarrow> real \<Rightarrow> int option" where
  "calculateMonthlyPayment principalCents annualRate termYears =
     (let monthlyRate = annualRate / of_int MONTHS_PER_YEAR;
          totalPayments = termYears * of_int MONTHS_PER_YEAR
      in if monthlyRate = 0 then straightLinePayment principalCents totalPayments
         else amortizedPayment principalCents monthlyRate totalPayments)"

definition calculateInterestOnlyPayment :: "real \<Rightarrow> real \<Rightarrow> int" where
  "calculateInterestOnlyPayment principalCents annualRate =
     (let monthlyRate = annualRate / of_int MONTHS_PER_YEAR
      in Math_round (principalCents * monthlyRate))"

section \<open>loanEngine.ts\<close>

record LoanDetails =
  id_loan :: string
  startDate_loan :: Date
  startBalanceCents :: int
  annualRate :: real
  ioYears :: int
  termYears :: int
  offsetStartCents :: int
  offsetContribMonthlyCents :: int
  allowRedraw :: bool

record LoanMonth =
  month :: int
  date :: MonthOfDate
  startingBalance :: int
  offsetBalance :: int
  effectiveBalance :: int
  interestCharged :: int
  principalPayment :: int
  totalPayment :: int
  endingBalance :: int
  isInterestOnly :: bool

record LoanSchedule =
  loanId :: string
  months :: "LoanMonth list"
  totalInterest :: int
  totalPayments :: int

text \<open>
  The variables of the loop of \<open>calculateLoanSchedule\<close>, as they stand at a loop head.
  A local name of the source that is also a field of a record is written differently
  in the bodies below: \<open>mth\<close> for \<open>month\<close>, \<open>nmonths\<close> for the parameter \<open>months\<close>,
  \<open>effBalance\<close>, \<open>interest\<close>, \<open>principalPmt\<close>, \<open>totalPmt\<close> and \<open>interestOnly\<close> for
  \<open>effectiveBalance\<close>, \<open>interestCharged\<close>, \<open>principalPayment\<close>, \<open>totalPayment\<close> and
  \<open>isInterestOnly\<close>, and \<open>offset1\<close>, \<open>offset2\<close> for \<open>offsetBalance\<close> after the contribution
  and after the clamp.
\<close>

record LoopVars =
  month_v :: int
  currentBalance_v :: int
  offsetBalance_v :: int
  totalInterest_v :: int
  totalPayments_v :: int
  schedule_v :: "LoanMonth list"

text \<open>
  The principal-and-interest branch of the loop body: the payment recomputed on the
  effective balance over the remaining months, the principal part capped at the
  balance. It returns \<open>(principalPayment, totalPayment)\<close>.
\<close>

definition piBranch :: "LoanDetails \<Rightarrow> int \<Rightarrow> int \<Rightarrow> int \<Rightarrow> int \<Rightarrow> int \<Rightarrow> (int \<times> int) option" where
  "piBranch loan nmonths mth currentBalance effBalance interest =
     (let remainingMonths = nmonths - mth + 1
      in case calculateMonthlyPayment (of_int effBalance) (annualRate loan)
                (of_int remainingMonths / of_int MONTHS_PER_YEAR) of
           None \<Rightarrow> None
         | Some piPayment \<Rightarrow>
             (let principalPmt = piPayment - interest
              in if principalPmt > currentBalance
                 then Some (currentBalance, currentBalance + interest)
                 else Some (principalPmt, piPayment)))"

text \<open>One pass through the loop body.\<close>

definition loanIteration :: "LoanDetails \<Rightarrow> int \<Rightarrow> LoopVars \<Rightarrow> LoopVars option" where
  "loanIteration loan nmonths v =
     (let ioMonths = ioYears loan * MONTHS_PER_YEAR;
          monthlyRate = annualRate loan / of_int MONTHS_PER_YEAR;
          mth = month_v v;
          currentBalance = currentBalance_v v;
          currentDate = (startDate_loan loan, mth - 1);
          offset1 = offsetBalance_v v + offsetContribMonthlyCents loan;
          offset2 = (if \<not> allowRedraw loan \<and> offset1 > currentBalance
                     then currentBalance else offset1);
          effBalance = max 0 (currentBalance - offset2);
          interest = Math_round (of_int effBalance * monthlyRate);
          interestOnly = (mth \<le> ioMonths)
      in case (if \<not> interestOnly \<and> effBalance > 0
               then piBranch loan nmonths mth currentBalance effBalance interest
               else Some (0, interest)) of
           None \<Rightarrow> None
         | Some (principalPmt, totalPmt) \<Rightarrow>
             Some \<lparr> month_v = mth + 1,
                    currentBalance_v = currentBalance - principalPmt,
                    offsetBalance_v = offset2,
                    totalInterest_v = totalInterest_v v + interest,
                    totalPayments_v = totalPayments_v v + totalPmt,
                    schedule_v = schedule_v v @
                      [\<lparr> month = mth,
                         date = currentDate,
                         startingBalance = (currentBalance - principalPmt) + principalPmt,
                         offsetBalance = offset2,
                         effectiveBalance = effBalance,
                         interestCharged = interest,
                         principalPayment = principalPmt,
                         totalPayment = totalPmt,
                         endingBalance = currentBalance - principalPmt,
                         isInterestOnly = interestOnly \<rparr>] \<rparr>)"

function loanLoop :: "LoanDetails \<Rightarrow> int \<Rightarrow> LoopVars \<Rightarrow> LoopVars option" where
  "loanLoop loan nmonths v =
     (if month_v v \<le> nmonths \<and> currentBalance_v v > 0
      then (case loanIteration loan nmonths v of
              None \<Rightarrow> None
            | Some v' \<Rightarrow> loanLoop loan nmonths v')
      else Some v)"
  by pat_completeness auto
termination
proof (relation "measure (\<lambda>(loan, nmonths, v). nat (nmonths + 1 - month_v v))")
  show "wf (measure (\<lambda>(loan, nmonths, v). nat (nmonths + 1 - month_v v)))"
    by simp
next
  fix loan nmonths v v'
  assume "month_v v \<le> nmonths \<and> 0 < currentBalance_v v"
    and "loanIteration loan nmonths v = Some v'"
  then have "month_v v' = month_v v + 1" and "month_v v \<le> nmonths"
    by (auto simp: loanIteration_def Let_def split: option.splits prod.splits)
  then show "((loan, nmonths, v'), (loan, nmonths, v))
      \<in> measure (\<lambda>(loan, nmonths, v). nat (nmonths + 1 - month_v v))"
    by simp
qed

definition initialVars :: "LoanDetails \<Rightarrow> LoopVars" where
  "initialVars loan =
     \<lparr> month_v = 1,
       currentBalance_v = startBalanceCents loan,
       offsetBalance_v = offsetStartCents loan,
       totalInterest_v = 0,
       totalPayments_v = 0,
       schedule_v = [] \<rparr>"

definition calculateLoanSchedule :: "LoanDetails \<Rightarrow> int \<Rightarrow> LoanSchedule option" where
  "calculateLoanSchedule loan nmonths =
     map_option
       (\<lambda>v. \<lparr> loanId = id_loan loan,
               months = schedule_v v,
               totalInterest = totalInterest_v v,
               totalPayments = totalPayments_v v \<rparr>)
       (loanLoop loan nmonths (initialVars loan))"

definition calculateLoanSchedule_default :: "LoanDetails \<Rightarrow> LoanSchedule option" where
  "calculateLoanSchedule_default loan = calculateLoanSchedule loan (termYears loan * 12)"
  \<comment> \<open>the call without \<open>months\<close>: the default is \<open>loan.termYears * 12\<close>\<close>

text \<open>
  \<open>getMonthlyPayment\<close>, \<open>refinanceLoan\<close> with every argument given (the source lets
  \<open>newIoYears\<close> default to 0 and \<open>newTermYears\<close> to 30) and \<open>calculateOffsetSavings\<close>.
\<close>

definition getMonthlyPayment :: "LoanDetails \<Rightarrow> int \<Rightarrow> int \<Rightarrow> int \<Rightarrow> int option" where
  "getMonthlyPayment loan monthNumber currentBalance offsetBal =
     (let ioMonths = ioYears loan * MONTHS_PER_YEAR;
          effBalance = max 0 (currentBalance - offsetBal)
      in if monthNumber \<le> ioMonths
         then Some (calculateInterestOnlyPayment (of_int effBalance) (annualRate loan))
         else (let remainingMonths = termYears loan * MONTHS_PER_YEAR - monthNumber + 1;
                   remainingYears = of_int remainingMonths / of_int MONTHS_PER_YEAR
               in calculateMonthlyPayment (of_int effBalance) (annualRate loan) remainingYears))"

definition refinanceLoan :: "LoanDetails \<Rightarrow> Date \<Rightarrow> real \<Rightarrow> int \<Rightarrow> int \<Rightarrow> LoanDetails" where
  "refinanceLoan loan refinanceDate newRate newIoYears newTermYears =
     loan \<lparr> startDate_loan := refinanceDate,
            annualRate := newRate,
            ioYears := newIoYears,
            termYears := newTermYears \<rparr>"

definition calculateOffsetSavings :: "LoanDetails \<Rightarrow> int \<Rightarrow> int option" where
  "calculateOffsetSavings loan nmonths =
     do {
       withOffset \<leftarrow> calculateLoanSchedule loan nmonths;
       withoutOffset \<leftarrow> calculateLoanSchedule
          (loan \<lparr> offsetStartCents := 0, offsetContribMonthlyCents := 0 \<rparr>) nmonths;
       Some (totalInterest withoutOffset - totalInterest withOffset)
     }"

section \<open>constants.ts: tax and present value\<close>

record TaxBracket =
  min_b :: int
  max_b :: "int option"
  rate_b :: real

text \<open>\<open>AU_TAX_BRACKETS\<close>; the \<open>max: Infinity\<close> of the last bracket is \<open>None\<close>.\<close>

definition AU_TAX_BRACKETS :: "TaxBracket list" where
  "AU_TAX_BRACKETS =
     [ \<lparr> min_b = 0, max_b = Some 1800000, rate_b = 0 \<rparr>,
       \<lparr> min_b = 1800000, max_b = Some 4500000, rate_b = 19 / 100 \<rparr>,
       \<lparr> min_b = 4500000, max_b = Some 12000000, rate_b = 325 / 1000 \<rparr>,
       \<lparr> min_b = 12000000, max_b = Some 18000000, rate_b = 37 / 100 \<rparr>,
       \<lparr> min_b = 18000000, max_b = None, rate_b = 45 / 100 \<rparr> ]"

text \<open>
  The loop of \<open>calculateAfterTaxIncome\<close> over the brackets, with \<open>taxPayable\<close> and
  \<open>remainingIncome\<close> as arguments; \<open>break\<close> returns the tax so far.
\<close>

fun taxBracketLoop :: "TaxBracket list \<Rightarrow> real \<Rightarrow> real \<Rightarrow> real" where
  "taxBracketLoop [] taxPayable remainingIncome = taxPayable"
| "taxBracketLoop (bracket # rest) taxPayable remainingIncome =
     (if remainingIncome \<le> 0 then taxPayable
      else (let taxableInThisBracket =
                  (case max_b bracket of
                     None \<Rightarrow> remainingIncome
                   | Some mx \<Rightarrow> min remainingIncome (of_int (mx - min_b bracket)))
            in taxBracketLoop rest
                 (taxPayable + taxableInThisBracket * rate_b bracket)
                 (remainingIncome - taxableInThisBracket)))"

definition calculateAfterTaxIncome :: "int \<Rightarrow> real \<Rightarrow> int" where
  "calculateAfterTaxIncome grossIncomeCents levy =
     (let taxPayable = taxBracketLoop AU_TAX_BRACKETS 0 (of_int grossIncomeCents);
          medicareLevyTax = of_int grossIncomeCents * levy
      in Math_round (of_int grossIncomeCents - taxPayable - medicareLevyTax))"

definition calculatePresentValue :: "real \<Rightarrow> real \<Rightarrow> real \<Rightarrow> int option" where
  "calculatePresentValue nominalValueCents cpiRate years =
     do {
       deflator \<leftarrow> Math_pow (1 + cpiRate) years;
       presentValue \<leftarrow> divide_js nominalValueCents deflator;
       Some (Math_round presentValue)
     }"

section \<open>forecastEngine.ts\<close>

record UserProfile =
  id_profile :: string
  name_profile :: string
  dateOfBirth :: Date
  retirementAge :: int
  inflationCpiPa :: real
  wageGrowthPa :: real
  returnSuperPa :: real
  returnPortfolioPa :: real
  taxMarginalRate :: real
  medicareLevy :: real
  stateCode :: string

record Property =
  id_property :: string
  name_property :: string
  purchasePriceCents :: int
  purchaseDate :: Date
  valueNowCents :: int
  valueGrowthPa :: real
  costsFixedPaCents :: int
  maintenancePctOfValue :: real
  strataPaCents :: int
  ratesPaCents :: int
  insurancePaCents :: int
  landTaxPaCents :: int
  rentPwCents :: int
  vacancyWeeksPa :: int
  depreciationCapitalPaCents :: int
  depreciationPlantPaCents :: int
  becomesIpOn :: "Date option"
  becomesPporOn :: "Date option"
  soldOn :: "Date option"

record ForecastMonth =
  month_F :: int
  date_F :: MonthOfDate
  salaryAfterTax :: real
  rentalIncome :: real
  totalIncome :: real
  livingExpenses :: real
  propertyExpenses :: real
  loanPayments :: int
  totalExpenses :: real
  netCashflow :: real
  cashBuffer :: real
  propertyValues :: real
  superBalance :: real
  portfolioBalance :: real
  totalAssets :: real
  totalDebt :: int
  netWorth :: real
  netWorthPresentValue :: int
  passiveIncomeCapacity :: real

text \<open>
  A summary field holds \<open>undefined\<close> (\<open>None\<close>) when the forecast has no record to select.
\<close>

record ForecastSummary =
  now :: "ForecastMonth option"
  year10 :: "ForecastMonth option"
  year20 :: "ForecastMonth option"
  retirement :: "ForecastMonth option"
  year30 :: "ForecastMonth option"

record Scenario =
  id_scenario :: string
  userId :: string
  name_scenario :: string
  startDate_scenario :: Date
  horizonYears :: int
  profile :: UserProfile
  properties :: "Property list"
  loans :: "LoanDetails list"
  stressRateBumpPct :: real
  stressGrowthHaircutPct :: real
  stressVacancyWeeks :: int
  stressBorrowCapDownPct :: real

text \<open>\<open>xs[i]\<close>: the element, or \<open>undefined\<close> outside the array.\<close>

definition index_js :: "'a list \<Rightarrow> int \<Rightarrow> 'a option" where
  "index_js xs i = (if 0 \<le> i \<and> i < int (length xs) then Some (xs ! nat i) else None)"

text \<open>\<open>a || b\<close> on object references: an object is truthy, \<open>undefined\<close> is not.\<close>

definition or_js :: "'a option \<Rightarrow> 'a option \<Rightarrow> 'a option" where
  "or_js a b = (case a of Some x \<Rightarrow> Some x | None \<Rightarrow> b)"

text \<open>The passes over the properties and over the loans inside a forecast month, each
  with its running total as an argument.\<close>

fun rentalIncomeLoop :: "Property list \<Rightarrow> real \<Rightarrow> real" where
  "rentalIncomeLoop [] totalRentalIncome = totalRentalIncome"
| "rentalIncomeLoop (property # rest) totalRentalIncome =
     (let weeksPerYear = 52 - vacancyWeeksPa property;
          annualRent = rentPwCents property * weeksPerYear
      in rentalIncomeLoop rest (totalRentalIncome + of_int annualRent / 12))"

fun propertyExpensesLoop :: "Property list \<Rightarrow> real \<Rightarrow> real \<Rightarrow> real option" where
  "propertyExpensesLoop [] yearsFromStart totalPropertyExpenses = Some totalPropertyExpenses"
| "propertyExpensesLoop (property # rest) yearsFromStart totalPropertyExpenses =
     do {
       let annualExpenses = costsFixedPaCents property + strataPaCents property
             + ratesPaCents property + insurancePaCents property + landTaxPaCents property;
       growth \<leftarrow> Math_pow (1 + valueGrowthPa property) yearsFromStart;
       let maintenanceExpenses =
             of_int (valueNowCents property) * growth * maintenancePctOfValue property;
       propertyExpensesLoop rest yearsFromStart
         (totalPropertyExpenses + (of_int annualExpenses + maintenanceExpenses) / 12)
     }"

fun loanPaymentsLoop :: "LoanDetails list \<Rightarrow> int \<Rightarrow> int \<Rightarrow> int option" where
  "loanPaymentsLoop [] mth totalLoanPayments = Some totalLoanPayments"
| "loanPaymentsLoop (loan # rest) mth totalLoanPayments =
     do {
       schedule \<leftarrow> calculateLoanSchedule loan (min mth (termYears loan * 12));
       loanPaymentsLoop rest mth
         (case index_js (months schedule) (mth - 1) of
            Some m \<Rightarrow> totalLoanPayments + totalPayment m
          | None \<Rightarrow> totalLoanPayments)
     }"

fun propertyValuesLoop :: "Property list \<Rightarrow> real \<Rightarrow> real \<Rightarrow> real option" where
  "propertyValuesLoop [] yearsFromStart totalPropertyValues = Some totalPropertyValues"
| "propertyValuesLoop (property # rest) yearsFromStart totalPropertyValues =
     do {
       growth \<leftarrow> Math_pow (1 + valueGrowthPa property) yearsFromStart;
       propertyValuesLoop rest yearsFromStart
         (totalPropertyValues + of_int (valueNowCents property) * growth)
     }"

fun totalDebtLoop :: "LoanDetails list \<Rightarrow> int \<Rightarrow> int \<Rightarrow> int option" where
  "totalDebtLoop [] mth debt = Some debt"
| "totalDebtLoop (loan # rest) mth debt =
     do {
       schedule \<leftarrow> calculateLoanSchedule loan (min mth (termYears loan * 12));
       totalDebtLoop rest mth
         (case index_js (months schedule) (mth - 1) of
            Some m \<Rightarrow> debt + endingBalance m
          | None \<Rightarrow> debt)
     }"

text \<open>The variables of the loop of \<open>runForecast\<close>, as they stand at a loop head.\<close>

record ForecastVars =
  month_f :: int
  cashBuffer_f :: real
  superBalance_f :: real
  portfolioBalance_f :: real
  forecast_f :: "ForecastMonth list"

text \<open>
  One pass through the body of the loop of \<open>runForecast\<close>. The after-tax monthly salary
  and the monthly living expenses are computed before the loop and passed in. The
  locals \<open>totalIncome\<close>, \<open>totalExpenses\<close>, \<open>netCashflow\<close>, \<open>totalAssets\<close>, \<open>totalDebt\<close>,
  \<open>netWorth\<close>, \<open>netWorthPresentValue\<close> and \<open>passiveIncomeCapacity\<close> are written
  \<open>totalInc\<close>, \<open>totalExp\<close>, \<open>cashflow\<close>, \<open>assets\<close>, \<open>debt\<close>, \<open>worth\<close>, \<open>worthPresentValue\<close>
  and \<open>passiveIncome\<close>; \<open>cashBuffer1\<close> and \<open>superBalance1\<close> are the two balances after
  their update.
\<close>

definition forecastIteration ::
    "Scenario \<Rightarrow> real \<Rightarrow> real \<Rightarrow> ForecastVars \<Rightarrow> ForecastVars option" where
  "forecastIteration scenario monthlySalaryAfterTax monthlyLivingExpenses v =
     do {
       let mth = month_f v;
       let currentDate = (startDate_scenario scenario, mth - 1);
       let yearsFromStart = (of_int mth - 1) / 12;
       wageFactor \<leftarrow> Math_pow (1 + wageGrowthPa (profile scenario)) yearsFromStart;
       let adjustedSalary = monthlySalaryAfterTax * wageFactor;
       let totalRentalIncome = rentalIncomeLoop (properties scenario) 0;
       let totalInc = adjustedSalary + totalRentalIncome;
       totalPropertyExpenses \<leftarrow> propertyExpensesLoop (properties scenario) yearsFromStart 0;
       totalLoanPayments \<leftarrow> loanPaymentsLoop (loans scenario) mth 0;
       cpiFactor \<leftarrow> Math_pow (1 + inflationCpiPa (profile scenario)) yearsFromStart;
       let adjustedLivingExpenses = monthlyLivingExpenses * cpiFactor;
       let totalExp = adjustedLivingExpenses + totalPropertyExpenses + of_int totalLoanPayments;
       let cashflow = totalInc - totalExp;
       let cashBuffer1 = cashBuffer_f v + cashflow;
       let superBalance1 = superBalance_f v * (1 + returnSuperPa (profile scenario) / 12);
       totalPropertyValues \<leftarrow> propertyValuesLoop (properties scenario) yearsFromStart 0;
       debt \<leftarrow> totalDebtLoop (loans scenario) mth 0;
       let assets = totalPropertyValues + superBalance1 + portfolioBalance_f v + cashBuffer1;
       let worth = assets - of_int debt;
       worthPresentValue \<leftarrow>
         calculatePresentValue worth (inflationCpiPa (profile scenario)) yearsFromStart;
       let passiveIncome = of_int worthPresentValue * (4 / 100) / 12;
       Some \<lparr> month_f = mth + 1,
              cashBuffer_f = cashBuffer1,
              superBalance_f = superBalance1,
              portfolioBalance_f = portfolioBalance_f v,
              forecast_f = forecast_f v @
                [\<lparr> month_F = mth,
                   date_F = currentDate,
                   salaryAfterTax = adjustedSalary,
                   rentalIncome = totalRentalIncome,
                   totalIncome = totalInc,
                   livingExpenses = adjustedLivingExpenses,
                   propertyExpenses = totalPropertyExpenses,
                   loanPayments = totalLoanPayments,
                   totalExpenses = totalExp,
                   netCashflow = cashflow,
                   cashBuffer = cashBuffer1,
                   propertyValues = totalPropertyValues,
                   superBalance = superBalance1,
                   portfolioBalance = portfolioBalance_f v,
                   totalAssets = assets,
                   totalDebt = debt,
                   netWorth = worth,
                   netWorthPresentValue = worthPresentValue,
                   passiveIncomeCapacity = passiveIncome \<rparr>] \<rparr>
     }"

function forecastLoop ::
    "Scenario \<Rightarrow> real \<Rightarrow> real \<Rightarrow> int \<Rightarrow> ForecastVars \<Rightarrow> ForecastVars option" where
  "forecastLoop scenario monthlySalaryAfterTax monthlyLivingExpenses totalMonths v =
     (if month_f v \<le> totalMonths
      then (case forecastIteration scenario monthlySalaryAfterTax monthlyLivingExpenses v of
              None \<Rightarrow> None
            | Some v' \<Rightarrow>
                forecastLoop scenario monthlySalaryAfterTax monthlyLivingExpenses totalMonths v')
      else Some v)"
  by pat_completeness auto
termination
proof (relation "measure (\<lambda>(scenario, sal, liv, totalMonths, v). nat (totalMonths + 1 - month_f v))")
  show "wf (measure (\<lambda>(scenario, sal, liv, totalMonths, v). nat (totalMonths + 1 - month_f v)))"
    by simp
next
  fix scenario :: Scenario and sal liv :: real and totalMonths :: int and v v' :: ForecastVars
  assume "month_f v \<le> totalMonths" and "forecastIteration scenario sal liv v = Some v'"
  then have "month_f v' = month_f v + 1"
    by (auto simp: forecastIteration_def Let_def split: Option.bind_splits)
  with \<open>month_f v \<le> totalMonths\<close>
  show "((scenario, sal, liv, totalMonths, v'), (scenario, sal, liv, totalMonths, v))
      \<in> measure (\<lambda>(scenario, sal, liv, totalMonths, v). nat (totalMonths + 1 - month_f v))"
    by simp
qed

text \<open>The loop variables before the first month: the starting balances of \<open>runForecast\<close>.\<close>

definition forecastStart :: ForecastVars where
  "forecastStart =
     \<lparr> month_f = 1,
       cashBuffer_f = 1000000,
       superBalance_f = 50000000,
       portfolioBalance_f = 0,
       forecast_f = [] \<rparr>"

definition runForecast :: "Scenario \<Rightarrow> ForecastMonth list option" where
  "runForecast scenario =
     (let totalMonths = horizonYears scenario * 12;
          annualSalaryCents = 12000000;
          monthlySalaryAfterTax =
            of_int (calculateAfterTaxIncome annualSalaryCents (medicareLevy (profile scenario))) / 12;
          monthlyLivingExpenses = 500000
      in map_option forecast_f
           (forecastLoop scenario monthlySalaryAfterTax monthlyLivingExpenses totalMonths
              forecastStart))"

definition generateSummary :: "ForecastMonth list \<Rightarrow> int \<Rightarrow> Date \<Rightarrow> Date \<Rightarrow> ForecastSummary" where
  "generateSummary forecast retireAge birth dateNow =
     (let lastRecord = index_js forecast (int (length forecast) - 1);
          now0 = index_js forecast 0;
          y10 = or_js (index_js forecast 119) lastRecord;
          y20 = or_js (index_js forecast 239) lastRecord;
          y30 = or_js (index_js forecast 359) lastRecord;
          currentAge = (of_int dateNow - of_int birth) / (36525 / 100 * 24 * 60 * 60 * 1000 :: real);
          monthsToRetirement = max 0 ((of_int retireAge - currentAge) * 12);
          retirement0 = or_js (index_js forecast \<lfloor>monthsToRetirement\<rfloor>) y30
      in \<lparr> now = now0, year10 = y10, year20 = y20, retirement = retirement0, year30 = y30 \<rparr>)"
  \<comment> \<open>\<open>dateNow\<close> is the value of \<open>Date.now()\<close> at the call\<close>

definition applyStressTest :: "Scenario \<Rightarrow> Scenario" where
  "applyStressTest scenario =
     scenario
       \<lparr> loans :=
           map (\<lambda>loan. loan \<lparr> annualRate :=
                   annualRate loan + stressRateBumpPct scenario / 100 \<rparr>)
               (loans scenario),
         properties :=
           map (\<lambda>property. property
                  \<lparr> valueGrowthPa :=
                      valueGrowthPa property - stressGrowthHaircutPct scenario / 100,
                    vacancyWeeksPa :=
                      max (vacancyWeeksPa property) (stressVacancyWeeks scenario) \<rparr>)
               (properties scenario) \<rparr>"

section \<open>forecastEngine.ts: \<open>applyStressTest\<close> over a store of objects\<close>

text \<open>
  The value-level \<open>applyStressTest\<close> above cannot say that the call leaves its argument
  alone: a value cannot change. This section gives the same function over a store of
  objects. An object is a cell of the store, and a reference is the index of its cell.
  The scenario object holds its profile and its two arrays by reference, and an array
  holds its elements by reference. The spread \<open>{...x, f: e}\<close> allocates a new object
  with the fields of \<open>x\<close> and \<open>f\<close> set to \<open>e\<close>; \<open>xs.map(callback)\<close> allocates what each
  callback returns and then the new array. The function has no assignment statement:
  every write of the call fills in an object that the call has just created. The model
  therefore allocates each new object with its final content.
\<close>

type_synonym ref = nat

record ScenarioObject =
  id_o :: string
  userId_o :: string
  name_o :: string
  startDate_o :: Date
  horizonYears_o :: int
  profile_o :: ref
  properties_o :: ref
  loans_o :: ref
  stressRateBumpPct_o :: real
  stressGrowthHaircutPct_o :: real
  stressVacancyWeeks_o :: int
  stressBorrowCapDownPct_o :: real

datatype cell =
    ScenarioCell ScenarioObject
  | ProfileCell UserProfile
  | PropertyCell Property
  | LoanCell LoanDetails
  | ArrayCell "ref list"

type_synonym store = "cell list"

text \<open>Reading a reference, and allocating a new object at the end of the store.\<close>

definition deref :: "store \<Rightarrow> ref \<Rightarrow> cell option" where
  "deref h r = (if r < length h then Some (h ! r) else None)"

definition alloc :: "store \<Rightarrow> cell \<Rightarrow> store \<times> ref" where
  "alloc h c = (h @ [c], length h)"

definition asScenario :: "cell \<Rightarrow> ScenarioObject option" where
  "asScenario c = (case c of ScenarioCell sc \<Rightarrow> Some sc | _ \<Rightarrow> None)"

definition asProfile :: "cell \<Rightarrow> UserProfile option" where
  "asProfile c = (case c of ProfileCell p \<Rightarrow> Some p | _ \<Rightarrow> None)"

definition asProperty :: "cell \<Rightarrow> Property option" where
  "asProperty c = (case c of PropertyCell p \<Rightarrow> Some p | _ \<Rightarrow> None)"

definition asLoan :: "cell \<Rightarrow> LoanDetails option" where
  "asLoan c = (case c of LoanCell l \<Rightarrow> Some l | _ \<Rightarrow> None)"

definition asArray :: "cell \<Rightarrow> ref list option" where
  "asArray c = (case c of ArrayCell rs \<Rightarrow> Some rs | _ \<Rightarrow> None)"

text \<open>
  \<open>Array.prototype.map\<close> with a callback that returns a new object for each element:
  the elements are visited in order and each result is allocated.
\<close>

fun mapObjects :: "(cell \<Rightarrow> cell option) \<Rightarrow> store \<Rightarrow> ref list \<Rightarrow> (store \<times> ref list) option" where
  "mapObjects callback h [] = Some (h, [])"
| "mapObjects callback h (r # rs) =
     do {
       c \<leftarrow> deref h r;
       c' \<leftarrow> callback c;
       (h1, r1) \<leftarrow> Some (alloc h c');
       (h2, rs2) \<leftarrow> mapObjects callback h1 rs;
       Some (h2, r1 # rs2)
     }"

text \<open>The two callbacks: \<open>loan => ({...loan, annualRate: ...})\<close> and
  \<open>property => ({...property, valueGrowthPa: ..., vacancyWeeksPa: ...})\<close>. The stress
  parameters are fields of the scenario object, which no step of the call writes.\<close>

definition stressedLoan :: "real \<Rightarrow> cell \<Rightarrow> cell option" where
  "stressedLoan bumpPct c =
     map_option (\<lambda>loan. LoanCell (loan \<lparr> annualRate := annualRate loan + bumpPct / 100 \<rparr>))
       (asLoan c)"

definition stressedProperty :: "real \<Rightarrow> int \<Rightarrow> cell \<Rightarrow> cell option" where
  "stressedProperty haircutPct vacancyWeeks c =
     map_option
       (\<lambda>property. PropertyCell (property
           \<lparr> valueGrowthPa := valueGrowthPa property - haircutPct / 100,
             vacancyWeeksPa := max (vacancyWeeksPa property) vacancyWeeks \<rparr>))
       (asProperty c)"

definition applyStressTest_store :: "store \<Rightarrow> ref \<Rightarrow> (store \<times> ref) option" where
  "applyStressTest_store h scenarioRef =
     do {
       scenario \<leftarrow> Option.bind (deref h scenarioRef) asScenario;
       loanRefs \<leftarrow> Option.bind (deref h (loans_o scenario)) asArray;
       (h1, newLoanRefs) \<leftarrow>
         mapObjects (stressedLoan (stressRateBumpPct_o scenario)) h loanRefs;
       (h2, newLoans) \<leftarrow> Some (alloc h1 (ArrayCell newLoanRefs));
       propertyRefs \<leftarrow> Option.bind (deref h2 (properties_o scenario)) asArray;
       (h3, newPropertyRefs) \<leftarrow>
         mapObjects (stressedProperty (stressGrowthHaircutPct_o scenario)
                       (stressVacancyWeeks_o scenario)) h2 propertyRefs;
       (h4, newProperties) \<leftarrow> Some (alloc h3 (ArrayCell newPropertyRefs));
       Some (alloc h4 (ScenarioCell
               (scenario \<lparr> loans_o := newLoans, properties_o := newProperties \<rparr>)))
     }"

text \<open>The scenario that a reference stands for: the object with everything it refers to.\<close>

fun readObjects :: "(cell \<Rightarrow> 'a option) \<Rightarrow> store \<Rightarrow> ref list \<Rightarrow> 'a list option" where
  "readObjects as h [] = Some []"
| "readObjects as h (r # rs) =
     do {
       x \<leftarrow> Option.bind (deref h r) as;
       xs \<leftarrow> readObjects as h rs;
       Some (x # xs)
     }"

definition readScenario :: "store \<Rightarrow> ref \<Rightarrow> Scenario option" where
  "readScenario h scenarioRef =
     do {
       sc \<leftarrow> Option.bind (deref h scenarioRef) asScenario;
       prof \<leftarrow> Option.bind (deref h (profile_o sc)) asProfile;
       propertyRefs \<leftarrow> Option.bind (deref h (properties_o sc)) asArray;
       props \<leftarrow> readObjects asProperty h propertyRefs;
       loanRefs \<leftarrow> Option.bind (deref h (loans_o sc)) asArray;
       lns \<leftarrow> readObjects asLoan h loanRefs;
       Some \<lparr> id_scenario = id_o sc, userId = userId_o sc, name_scenario = name_o sc,
              startDate_scenario = startDate_o sc, horizonYears = horizonYears_o sc,
              profile = prof, properties = props, loans = lns,
              stressRateBumpPct = stressRateBumpPct_o sc,
              stressGrowthHaircutPct = stressGrowthHaircutPct_o sc,
              stressVacancyWeeks = stressVacancyWeeks_o sc,
              stressBorrowCapDownPct = stressBorrowCapDownPct_o sc \<rparr>
     }"

section \<open>Notions used in the statements and proofs\<close>

text \<open>The offset balance of a month: the contribution added, then the clamp.\<close>

definition offsetAfterContribution :: "LoanDetails \<Rightarrow> LoopVars \<Rightarrow> int" where
  "offsetAfterContribution loan v =
     (let offset1 = offsetBalance_v v + offsetContribMonthlyCents loan
      in if \<not> allowRedraw loan \<and> offset1 > currentBalance_v v then currentBalance_v v else offset1)"

text \<open>
  The payment over \<open>n\<close> whole months on a whole principal \<open>x\<close>, as a plain formula, and
  its principal part: the payment less the month's interest.
\<close>

definition paymentOver :: "real \<Rightarrow> int \<Rightarrow> int \<Rightarrow> int" where
  "paymentOver rate n x =
     (if rate = 0 then Math_round (of_int x / of_int n)
      else Math_round (of_int x * (rate / 12 * (1 + rate / 12) ^ nat n)
                         / ((1 + rate / 12) ^ nat n - 1)))"

definition principalPart :: "real \<Rightarrow> int \<Rightarrow> int \<Rightarrow> int" where
  "principalPart rate n x = paymentOver rate n x - Math_round (of_int x * (rate / 12))"

text \<open>The effective balance, the interest and the principal payment of the month that
  starts in the state \<open>v\<close>.\<close>

definition effectiveOf :: "LoanDetails \<Rightarrow> LoopVars \<Rightarrow> int" where
  "effectiveOf loan v = max 0 (currentBalance_v v - offsetAfterContribution loan v)"

definition interestOf :: "LoanDetails \<Rightarrow> LoopVars \<Rightarrow> int" where
  "interestOf loan v = Math_round (of_int (effectiveOf loan v) * (annualRate loan / 12))"

definition principalOf :: "LoanDetails \<Rightarrow> int \<Rightarrow> LoopVars \<Rightarrow> int" where
  "principalOf loan n v =
     (if month_v v \<le> ioYears loan * 12 \<or> effectiveOf loan v \<le> 0 then 0
      else (let q = principalPart (annualRate loan) (n - month_v v + 1) (effectiveOf loan v)
            in if q > currentBalance_v v then currentBalance_v v else q))"

text \<open>Concrete inputs on which the statements below are run.\<close>

definition scenarioLoan :: LoanDetails where
  "scenarioLoan =
     \<lparr> id_loan = ''loan-1'', startDate_loan = 0, startBalanceCents = 77056100,
       annualRate = 6 / 100, ioYears = 2, termYears = 30, offsetStartCents = 5000000,
       offsetContribMonthlyCents = 200000, allowRedraw = True \<rparr>"

definition bankedLoan :: LoanDetails where
  "bankedLoan =
     \<lparr> id_loan = ''loan-2'', startDate_loan = 0, startBalanceCents = 100000,
       annualRate = 6 / 100, ioYears = 0, termYears = 1, offsetStartCents = 500000,
       offsetContribMonthlyCents = 0, allowRedraw = True \<rparr>"

definition clampedLoan :: LoanDetails where
  "clampedLoan = bankedLoan \<lparr> id_loan := ''loan-3'', allowRedraw := False \<rparr>"

definition plainLoan :: LoanDetails where
  "plainLoan =
     \<lparr> id_loan = ''loan-4'', startDate_loan = 0, startBalanceCents = 100000,
       annualRate = 6 / 100, ioYears = 0, termYears = 1, offsetStartCents = 20000,
       offsetContribMonthlyCents = 1000, allowRedraw = False \<rparr>"

text \<open>
  The rates at which every power and quotient of a forecast has a value: growth rates
  above \<open>- 1\<close> and no loan at the annual rate \<open>- 24\<close>. Every scenario whose rates
  are not negative is among them.
\<close>

definition finiteRates :: "Scenario \<Rightarrow> bool" where
  "finiteRates scenario \<longleftrightarrow>
     0 < 1 + wageGrowthPa (profile scenario)
     \<and> 0 < 1 + inflationCpiPa (profile scenario)
     \<and> list_all (\<lambda>p. 0 < 1 + valueGrowthPa p) (properties scenario)
     \<and> list_all (\<lambda>l. annualRate l \<noteq> - 24) (loans scenario)"

definition exampleProfile :: UserProfile where
  "exampleProfile =
     \<lparr> id_profile = ''profile-1'', name_profile = ''Alex'', dateOfBirth = 0,
       retirementAge = 65, inflationCpiPa = 25 / 1000, wageGrowthPa = 3 / 100,
       returnSuperPa = 7 / 100, returnPortfolioPa = 8 / 100, taxMarginalRate = 37 / 100,
       medicareLevy = 2 / 100, stateCode = ''NSW'' \<rparr>"

definition exampleProperty :: Property where
  "exampleProperty =
     \<lparr> id_property = ''property-1'', name_property = ''Home'',
       purchasePriceCents = 70000000, purchaseDate = 0, valueNowCents = 80000000,
       valueGrowthPa = 6 / 100, costsFixedPaCents = 120000, maintenancePctOfValue = 1 / 100,
       strataPaCents = 240000, ratesPaCents = 180000, insurancePaCents = 150000,
       landTaxPaCents = 0, rentPwCents = 60000, vacancyWeeksPa = 2,
       depreciationCapitalPaCents = 0, depreciationPlantPaCents = 0,
       becomesIpOn = None, becomesPporOn = None, soldOn = None \<rparr>"

definition exampleScenario :: Scenario where
  "exampleScenario =
     \<lparr> id_scenario = ''scenario-1'', userId = ''user-1'', name_scenario = ''Base'',
       startDate_scenario = 0, horizonYears = 30, profile = exampleProfile,
       properties = [exampleProperty], loans = [scenarioLoan],
       stressRateBumpPct = 2, stressGrowthHaircutPct = 1, stressVacancyWeeks = 4,
       stressBorrowCapDownPct = 10 \<rparr>"

text \<open>A forecast of 31 years whose records differ by their month number only.\<close>

definition blankMonth :: "int \<Rightarrow> ForecastMonth" where
  "blankMonth k =
     \<lparr> month_F = k, date_F = (0, k - 1), salaryAfterTax = 0, rentalIncome = 0,
       totalIncome = 0, livingExpenses = 0, propertyExpenses = 0, loanPayments = 0,
       totalExpenses = 0, netCashflow = 0, cashBuffer = 0, propertyValues = 0,
       superBalance = 0, portfolioBalance = 0, totalAssets = 0, totalDebt = 0,
       netWorth = 0, netWorthPresentValue = 0, passiveIncomeCapacity = 0 \<rparr>"

definition sampleForecast :: "ForecastMonth list" where
  "sampleForecast = map blankMonth [1..372]"


text \<open>The scenario made of a scenario object and the values of what it refers to.\<close>

definition scenarioOf :: "ScenarioObject \<Rightarrow> UserProfile \<Rightarrow> Property list \<Rightarrow> LoanDetails list \<Rightarrow> Scenario" where
  "scenarioOf sc prof props lns =
     \<lparr> id_scenario = id_o sc, userId = userId_o sc, name_scenario = name_o sc,
       startDate_scenario = startDate_o sc, horizonYears = horizonYears_o sc,
       profile = prof, properties = props, loans = lns,
       stressRateBumpPct = stressRateBumpPct_o sc,
       stressGrowthHaircutPct = stressGrowthHaircutPct_o sc,
       stressVacancyWeeks = stressVacancyWeeks_o sc,
       stressBorrowCapDownPct = stressBorrowCapDownPct_o sc \<rparr>"

text \<open>A store that holds the example scenario at reference 5.\<close>

definition exampleStore :: store where
  "exampleStore =
     [ ProfileCell exampleProfile,
       PropertyCell exampleProperty,
       ArrayCell [1],
       LoanCell scenarioLoan,
       ArrayCell [3],
       ScenarioCell
         \<lparr> id_o = ''scenario-1'', userId_o = ''user-1'', name_o = ''Base'', startDate_o = 0,
           horizonYears_o = 30, profile_o = 0, properties_o = 2, loans_o = 4,
           stressRateBumpPct_o = 2, stressGrowthHaircutPct_o = 1, stressVacancyWeeks_o = 4,
           stressBorrowCapDownPct_o = 10 \<rparr> ]"

text \<open>
  IEEE 754 binary64, for a value in the normal range: the doubles around \<open>x\<close> are the
  multiples of \<open>2 ^ e\<close> for the \<open>e\<close> that puts \<open>\<bar>x\<bar> / 2 ^ e\<close> between \<open>2 ^ 52\<close> and
  \<open>2 ^ 53\<close>, and an arithmetic result is the nearest of them, a tie going to the even
  multiple. It is used for one remark only: the interest of the first month of the
  end-to-end scenario is the same in binary64 arithmetic as in exact arithmetic.
\<close>

definition roundHalfEven :: "real \<Rightarrow> int" where
  "roundHalfEven x =
     (let f = \<lfloor>x\<rfloor>; d = x - of_int f
      in if d < 1 / 2 then f else if 1 / 2 < d then f + 1 else if even f then f else f + 1)"

definition binary64_spacing :: "real \<Rightarrow> int \<Rightarrow> bool" where
  "binary64_spacing x e \<longleftrightarrow> 2 ^ 52 \<le> \<bar>x\<bar> / 2 powi e \<and> \<bar>x\<bar> / 2 powi e < 2 ^ 53"

definition binary64_at :: "int \<Rightarrow> real \<Rightarrow> real" where
  "binary64_at e x = of_int (roundHalfEven (x / 2 powi e)) * 2 powi e"

definition binary64 :: "real \<Rightarrow> real" where
  "binary64 x = (if x = 0 then 0 else binary64_at (\<lfloor>log 2 \<bar>x\<bar>\<rfloor> - 52) x)"

section \<open>The payment formulas\<close>

declare loanLoop.simps [simp del]

lemma Math_pow_of_int: "0 \<le> n \<Longrightarrow> Math_pow x (of_int n) = Some (x ^ nat n)"
  by (simp add: Math_pow_def)

lemma Math_pow_one: "Math_pow 1 y = Some 1"
  by (simp add: Math_pow_def)

lemma power_eq_1_real:
  fixes x :: real
  assumes "x ^ n = 1" and "0 < n"
  shows "x = 1 \<or> x = - 1"
proof -
  have "\<bar>x\<bar> ^ n = 1"
    using assms(1) by (simp add: power_abs [symmetric])
  have "\<not> \<bar>x\<bar> < 1"
  proof
    assume "\<bar>x\<bar> < 1"
    with assms(2) have "\<bar>x\<bar> ^ n < 1"
      by (simp add: power_less_one_iff)
    with \<open>\<bar>x\<bar> ^ n = 1\<close> show False by simp
  qed
  moreover have "\<not> 1 < \<bar>x\<bar>"
  proof
    assume "1 < \<bar>x\<bar>"
    with assms(2) have "1 < \<bar>x\<bar> ^ n"
      by (intro one_less_power) simp_all
    with \<open>\<bar>x\<bar> ^ n = 1\<close> show False by simp
  qed
  ultimately have "\<bar>x\<bar> = 1"
    by simp
  then show ?thesis by auto
qed

text \<open>
  Over a whole number \<open>n \<ge> 1\<close> of payments the amortization formula has a value, unless
  the monthly rate is \<open>0\<close> or \<open>- 2\<close> (the only rates at which \<open>(1 + r) ^ n\<close> can be \<open>1\<close>).
\<close>

lemma amortizedPayment_months:
  assumes "1 \<le> n" and "r \<noteq> 0" and "r \<noteq> - 2"
  shows "amortizedPayment P r (of_int n) =
           Some (Math_round (P * (r * (1 + r) ^ nat n) / ((1 + r) ^ nat n - 1)))"
proof -
  have "(1 + r) ^ nat n \<noteq> 1"
  proof
    assume "(1 + r) ^ nat n = 1"
    moreover have "0 < nat n" using assms(1) by simp
    ultimately have "1 + r = 1 \<or> 1 + r = - 1" by (rule power_eq_1_real)
    with assms(2,3) show False by auto
  qed
  moreover have "Math_pow (1 + r) (of_int n) = Some ((1 + r) ^ nat n)"
    using assms(1) by (simp add: Math_pow_of_int)
  ultimately show ?thesis
    by (simp add: amortizedPayment_def divide_js_def)
qed

lemma calculateMonthlyPayment_months:
  assumes "1 \<le> n" and "rate \<noteq> 0" and "rate \<noteq> - 24"
  shows "calculateMonthlyPayment P rate (of_int n / of_int MONTHS_PER_YEAR) =
           Some (Math_round (P * (rate / 12 * (1 + rate / 12) ^ nat n)
                               / ((1 + rate / 12) ^ nat n - 1)))"
  using assms amortizedPayment_months [of n "rate / 12" P]
  by (simp add: calculateMonthlyPayment_def MONTHS_PER_YEAR_def Let_def)

lemma calculateMonthlyPayment_months_zero:
  assumes "1 \<le> n"
  shows "calculateMonthlyPayment P 0 (of_int n / of_int MONTHS_PER_YEAR) =
           Some (Math_round (P / of_int n))"
  using assms
  by (simp add: calculateMonthlyPayment_def straightLinePayment_def divide_js_def
      MONTHS_PER_YEAR_def)

text \<open>
  C8. At a zero annual rate, with principal \<open>P \<ge> 0\<close> and \<open>n = years \<times> 12 \<ge> 1\<close> payments,
  \<open>calculateMonthlyPayment\<close> takes the straight-line branch and returns \<open>round(P / n)\<close>.
  The amortization formula has no value at a zero rate (its divisor \<open>(1 + 0) ^ n - 1\<close> is
  zero); the result being a value, that branch did not run.
\<close>

theorem zero_rate_short_circuits:
  assumes "0 \<le> P" and "1 \<le> years * 12"
  shows "calculateMonthlyPayment P 0 years = straightLinePayment P (years * 12)
       \<and> calculateMonthlyPayment P 0 years = Some (Math_round (P / (years * 12)))
       \<and> Math_round (P / (years * 12)) = round (P / (years * 12))
       \<and> amortizedPayment P 0 (years * 12) = None"
  using assms
  by (simp add: calculateMonthlyPayment_def straightLinePayment_def amortizedPayment_def
      divide_js_def MONTHS_PER_YEAR_def Math_pow_one Math_round_def round_def)

theorem zero_rate_short_circuits_witness:
  "(0::real) \<le> 100000 \<and> (1::real) \<le> 1 * 12
   \<and> calculateMonthlyPayment 100000 0 1 = Some 8333
   \<and> amortizedPayment 100000 0 (1 * 12) = None"
proof -
  have "calculateMonthlyPayment 100000 0 1 = Some (Math_round (100000 / (1 * 12)))"
    and "amortizedPayment 100000 0 (1 * 12) = None"
    using zero_rate_short_circuits [of 100000 1] by auto
  then show ?thesis
    by (simp add: Math_round_def)
qed

section \<open>The loop of the loan schedule\<close>

lemma loanIteration_SomeD:
  assumes "loanIteration loan n v = Some v'"
  shows "\<exists>m. schedule_v v' = schedule_v v @ [m]
           \<and> month_v v' = month_v v + 1
           \<and> currentBalance_v v' = endingBalance m
           \<and> offsetBalance_v v' = offsetBalance m
           \<and> totalInterest_v v' = totalInterest_v v + interestCharged m
           \<and> totalPayments_v v' = totalPayments_v v + totalPayment m
           \<and> month m = month_v v
           \<and> startingBalance m = currentBalance_v v
           \<and> offsetBalance m = offsetAfterContribution loan v
           \<and> effectiveBalance m = max 0 (currentBalance_v v - offsetAfterContribution loan v)
           \<and> interestCharged m = Math_round (of_int (effectiveBalance m) * (annualRate loan / 12))
           \<and> endingBalance m = startingBalance m - principalPayment m
           \<and> isInterestOnly m = (month_v v \<le> ioYears loan * 12)"
  using assms
  by (auto simp: loanIteration_def offsetAfterContribution_def Let_def MONTHS_PER_YEAR_def
      split: option.splits prod.splits if_splits)

text \<open>A property kept by every pass of the body holds when the loop ends.\<close>

lemma loanLoop_invariant_aux:
  "loanLoop loan n v = Some w \<Longrightarrow>
   (\<forall>u u'. I u \<longrightarrow> month_v u \<le> n \<longrightarrow> 0 < currentBalance_v u
       \<longrightarrow> loanIteration loan n u = Some u' \<longrightarrow> I u') \<Longrightarrow>
   I v \<Longrightarrow> I w"
proof (induction loan n v rule: loanLoop.induct)
  case (1 loan n v)
  show ?case
  proof (cases "month_v v \<le> n \<and> 0 < currentBalance_v v")
    case False
    with "1.prems" show ?thesis
      by (simp add: loanLoop.simps [of loan n v])
  next
    case True
    with "1.prems"(1) obtain v' where it: "loanIteration loan n v = Some v'"
      and rest: "loanLoop loan n v' = Some w"
      by (auto simp: loanLoop.simps [of loan n v] split: option.splits)
    have "I v'"
      using "1.prems"(2,3) True it by blast
    with "1.IH" [OF True it rest "1.prems"(2)] show ?thesis by blast
  qed
qed

lemma loanLoop_invariant:
  assumes "loanLoop loan n v = Some w" and "I v"
    and "\<And>u u'. I u \<Longrightarrow> month_v u \<le> n \<Longrightarrow> 0 < currentBalance_v u
           \<Longrightarrow> loanIteration loan n u = Some u' \<Longrightarrow> I u'"
  shows "I w"
  using loanLoop_invariant_aux [of loan n v w I] assms by blast

lemma loanLoop_schedule_extends:
  assumes "loanLoop loan n v = Some w"
  shows "\<exists>ys. schedule_v w = schedule_v v @ ys"
proof -
  define I where "I = (\<lambda>u::LoopVars. \<exists>ys. schedule_v u = schedule_v v @ ys)"
  have "I v" by (simp add: I_def)
  moreover have "I u'" if "I u" and "loanIteration loan n u = Some u'" for u u'
    using that loanIteration_SomeD [OF that(2)] by (auto simp: I_def)
  ultimately have "I w"
    using loanLoop_invariant [OF assms, of I] by blast
  then show ?thesis by (simp add: I_def)
qed

lemma calculateLoanSchedule_SomeD:
  assumes "calculateLoanSchedule loan n = Some s"
  shows "\<exists>w. loanLoop loan n (initialVars loan) = Some w \<and> months s = schedule_v w
           \<and> totalInterest s = totalInterest_v w \<and> totalPayments s = totalPayments_v w
           \<and> loanId s = id_loan loan"
  using assms by (auto simp: calculateLoanSchedule_def)

text \<open>
  The schedule has a value for every loan whose annual rate is not \<open>- 24\<close>: every division
  of the loop then has a divisor other than zero. Every rate of at least zero is covered.
\<close>

lemma loanIteration_total:
  assumes "annualRate loan \<noteq> - 24" and "month_v v \<le> n"
  shows "\<exists>v'. loanIteration loan n v = Some v'"
proof -
  have n1: "1 \<le> n - month_v v + 1"
    using assms(2) by simp
  have "\<exists>p. calculateMonthlyPayment P (annualRate loan)
               (of_int (n - month_v v + 1) / of_int MONTHS_PER_YEAR) = Some p" for P
  proof (cases "annualRate loan = 0")
    case True
    then show ?thesis
      using calculateMonthlyPayment_months_zero [OF n1, of P] by simp
  next
    case False
    then show ?thesis
      using calculateMonthlyPayment_months [OF n1 False assms(1), of P] by simp
  qed
  then have pi: "piBranch loan n (month_v v) cb eb i \<noteq> None" for cb eb i
    by (auto simp: piBranch_def Let_def split: option.splits)
  show ?thesis
    by (simp add: loanIteration_def Let_def pi split: option.splits prod.splits)
qed

lemma loanLoop_total:
  "annualRate loan \<noteq> - 24 \<Longrightarrow> \<exists>w. loanLoop loan n v = Some w"
proof (induction loan n v rule: loanLoop.induct)
  case (1 loan n v)
  show ?case
  proof (cases "month_v v \<le> n \<and> 0 < currentBalance_v v")
    case False
    then have "loanLoop loan n v = Some v"
      by (subst loanLoop.simps) auto
    then show ?thesis by blast
  next
    case True
    then obtain v' where it: "loanIteration loan n v = Some v'"
      using loanIteration_total [OF "1.prems", of v n] by auto
    from "1.IH" [OF True it "1.prems"] obtain w where "loanLoop loan n v' = Some w" ..
    with True it have "loanLoop loan n v = Some w"
      by (subst loanLoop.simps) simp
    then show ?thesis by blast
  qed
qed

lemma calculateLoanSchedule_total:
  "annualRate loan \<noteq> - 24 \<Longrightarrow> \<exists>s. calculateLoanSchedule loan n = Some s"
  using loanLoop_total [of loan n "initialVars loan"]
  by (auto simp: calculateLoanSchedule_def)

text \<open>
  C1. The loan of the end-to-end scenario (balance 77,056,100 cents, 6\% a year, two
  interest-only years, a 30-year term, offset 5,000,000 cents with 200,000 cents added
  a month, redraw allowed), simulated over any horizon of at least one month: the
  schedule has a value and its first month shows the offset after the contribution
  (5,200,000), the effective balance 71,856,100, interest 359,281 (359,280.5 rounded
  up), no principal payment, a total payment of 359,281, in interest-only mode.
\<close>

theorem scenario_first_month:
  assumes "loan = \<lparr> id_loan = i, startDate_loan = d, startBalanceCents = 77056100,
             annualRate = 6 / 100, ioYears = 2, termYears = 30, offsetStartCents = 5000000,
             offsetContribMonthlyCents = 200000, allowRedraw = True \<rparr>"
    and "1 \<le> n"
  shows "\<exists>s m rest. calculateLoanSchedule loan n = Some s \<and> months s = m # rest
           \<and> month m = 1 \<and> offsetBalance m = 5200000 \<and> effectiveBalance m = 71856100
           \<and> interestCharged m = 359281 \<and> principalPayment m = 0
           \<and> totalPayment m = 359281 \<and> isInterestOnly m"
proof -
  define m :: LoanMonth where "m =
     \<lparr> month = 1, date = (d, 0), startingBalance = 77056100,
       offsetBalance = 5200000, effectiveBalance = 71856100, interestCharged = 359281,
       principalPayment = 0, totalPayment = 359281, endingBalance = 77056100,
       isInterestOnly = True \<rparr>"
  define v1 :: LoopVars where "v1 =
     \<lparr> month_v = 2, currentBalance_v = 77056100, offsetBalance_v = 5200000,
       totalInterest_v = 359281, totalPayments_v = 359281, schedule_v = [m] \<rparr>"
  have it: "loanIteration loan n (initialVars loan) = Some v1"
    by (simp add: assms(1) loanIteration_def initialVars_def Let_def MONTHS_PER_YEAR_def
        Math_round_def v1_def m_def)
  have "annualRate loan \<noteq> - 24"
    by (simp add: assms(1))
  then obtain w where w: "loanLoop loan n v1 = Some w"
    using loanLoop_total [of loan n v1] by auto
  obtain rest where rest: "schedule_v w = m # rest"
    using loanLoop_schedule_extends [OF w] by (auto simp: v1_def)
  have "loanLoop loan n (initialVars loan) = Some w"
    using it w assms(2) by (subst loanLoop.simps) (simp add: initialVars_def assms(1))
  then obtain s where "calculateLoanSchedule loan n = Some s" and "months s = schedule_v w"
    by (auto simp: calculateLoanSchedule_def)
  with rest show ?thesis by (auto simp: m_def)
qed

theorem scenario_first_month_witness:
  "\<exists>s m rest. calculateLoanSchedule scenarioLoan 360 = Some s \<and> months s = m # rest
           \<and> month m = 1 \<and> offsetBalance m = 5200000 \<and> effectiveBalance m = 71856100
           \<and> interestCharged m = 359281 \<and> principalPayment m = 0
           \<and> totalPayment m = 359281 \<and> isInterestOnly m"
  using scenario_first_month [of scenarioLoan "''loan-1''" 0 360]
  by (simp add: scenarioLoan_def)

text \<open>
  C3. In every month of a schedule that \<open>calculateLoanSchedule\<close> returns, the ending
  balance is the starting balance less the principal payment, the effective balance is
  not negative, and, for a loan whose starting balance, starting offset and monthly
  offset contribution are not negative, the effective balance is at most the starting
  balance.
\<close>

theorem loan_month_balances:
  assumes "calculateLoanSchedule loan n = Some s" and "m \<in> set (months s)"
  shows "endingBalance m = startingBalance m - principalPayment m
       \<and> 0 \<le> effectiveBalance m
       \<and> (0 \<le> startBalanceCents loan \<and> 0 \<le> offsetStartCents loan
            \<and> 0 \<le> offsetContribMonthlyCents loan
          \<longrightarrow> effectiveBalance m \<le> startingBalance m)"
proof -
  define pre where "pre \<longleftrightarrow> 0 \<le> startBalanceCents loan \<and> 0 \<le> offsetStartCents loan
            \<and> 0 \<le> offsetContribMonthlyCents loan"
  define Q where "Q = (\<lambda>m::LoanMonth. endingBalance m = startingBalance m - principalPayment m
       \<and> 0 \<le> effectiveBalance m \<and> (pre \<longrightarrow> effectiveBalance m \<le> startingBalance m))"
  define I where "I = (\<lambda>v::LoopVars. (\<forall>m \<in> set (schedule_v v). Q m)
                          \<and> (pre \<longrightarrow> 0 \<le> offsetBalance_v v))"
  from assms(1) obtain w where w: "loanLoop loan n (initialVars loan) = Some w"
    and ms: "months s = schedule_v w"
    using calculateLoanSchedule_SomeD by blast
  have "I (initialVars loan)"
    by (simp add: I_def initialVars_def pre_def)
  moreover have "I u'" if "I u" and "month_v u \<le> n" and "0 < currentBalance_v u"
    and "loanIteration loan n u = Some u'" for u u'
  proof -
    from loanIteration_SomeD [OF that(4)] obtain k where k:
      "schedule_v u' = schedule_v u @ [k]" "offsetBalance_v u' = offsetBalance k"
      "startingBalance k = currentBalance_v u" "offsetBalance k = offsetAfterContribution loan u"
      "effectiveBalance k = max 0 (currentBalance_v u - offsetAfterContribution loan u)"
      "endingBalance k = startingBalance k - principalPayment k"
      by blast
    have off: "pre \<Longrightarrow> 0 \<le> offsetAfterContribution loan u"
      using that(1,3) by (auto simp: I_def pre_def offsetAfterContribution_def Let_def)
    have "Q k"
      using k off that(3) by (auto simp: Q_def)
    then show ?thesis
      using that(1) k off by (auto simp: I_def)
  qed
  ultimately have "I w"
    using loanLoop_invariant [OF w, of I] by blast
  with assms(2) ms have "Q m"
    by (simp add: I_def)
  then show ?thesis
    by (simp add: Q_def pre_def)
qed


lemma plainLoan_schedule:
  "calculateLoanSchedule plainLoan 2 =
     Some \<lparr> loanId = ''loan-4'',
            months =
              [\<lparr> month = 1, date = (0, 0), startingBalance = 100000, offsetBalance = 21000,
                 effectiveBalance = 79000, interestCharged = 395, principalPayment = 39401,
                 totalPayment = 39796, endingBalance = 60599, isInterestOnly = False \<rparr>,
               \<lparr> month = 2, date = (0, 1), startingBalance = 60599, offsetBalance = 22000,
                 effectiveBalance = 38599, interestCharged = 193, principalPayment = 38599,
                 totalPayment = 38792, endingBalance = 22000, isInterestOnly = False \<rparr>],
            totalInterest = 588, totalPayments = 78588 \<rparr>"
  by code_simp

lemma clampedLoan_schedule:
  "calculateLoanSchedule clampedLoan 1 =
     Some \<lparr> loanId = ''loan-3'',
            months =
              [\<lparr> month = 1, date = (0, 0), startingBalance = 100000, offsetBalance = 100000,
                 effectiveBalance = 0, interestCharged = 0, principalPayment = 0,
                 totalPayment = 0, endingBalance = 100000, isInterestOnly = False \<rparr>],
            totalInterest = 0, totalPayments = 0 \<rparr>"
  by (simp add: calculateLoanSchedule_def clampedLoan_def bankedLoan_def initialVars_def
      loanLoop.simps loanIteration_def Let_def MONTHS_PER_YEAR_def Math_round_def)

lemma bankedLoan_schedule:
  "calculateLoanSchedule bankedLoan 1 =
     Some \<lparr> loanId = ''loan-2'',
            months =
              [\<lparr> month = 1, date = (0, 0), startingBalance = 100000, offsetBalance = 500000,
                 effectiveBalance = 0, interestCharged = 0, principalPayment = 0,
                 totalPayment = 0, endingBalance = 100000, isInterestOnly = False \<rparr>],
            totalInterest = 0, totalPayments = 0 \<rparr>"
  by (simp add: calculateLoanSchedule_def bankedLoan_def initialVars_def
      loanLoop.simps loanIteration_def Let_def MONTHS_PER_YEAR_def Math_round_def)

theorem loan_month_balances_witness:
  "\<exists>s m. calculateLoanSchedule plainLoan 2 = Some s \<and> m \<in> set (months s)
     \<and> startingBalance m = 100000 \<and> principalPayment m = 39401 \<and> endingBalance m = 60599
     \<and> endingBalance m = startingBalance m - principalPayment m
     \<and> 0 \<le> effectiveBalance m
     \<and> 0 \<le> startBalanceCents plainLoan \<and> 0 \<le> offsetStartCents plainLoan
     \<and> 0 \<le> offsetContribMonthlyCents plainLoan
     \<and> effectiveBalance m \<le> startingBalance m"
proof -
  define m :: LoanMonth where "m =
     \<lparr> month = 1, date = (0, 0), startingBalance = 100000, offsetBalance = 21000,
       effectiveBalance = 79000, interestCharged = 395, principalPayment = 39401,
       totalPayment = 39796, endingBalance = 60599, isInterestOnly = False \<rparr>"
  obtain s where s: "calculateLoanSchedule plainLoan 2 = Some s" and m: "m \<in> set (months s)"
    using plainLoan_schedule by (simp add: m_def)
  have pre: "0 \<le> startBalanceCents plainLoan \<and> 0 \<le> offsetStartCents plainLoan
     \<and> 0 \<le> offsetContribMonthlyCents plainLoan"
    by (simp add: plainLoan_def)
  from loan_month_balances [OF s m] pre s m show ?thesis
    by (intro exI [of _ s] exI [of _ m]) (simp add: m_def)
qed

text \<open>
  C4. With redraw disallowed, the offset balance of every month of a returned schedule
  is at most that month's starting balance. With redraw allowed there is no clamp: the
  offset balance of month \<open>k\<close> is the starting offset plus \<open>k\<close> contributions, and there
  is a loan whose offset balance is above its loan balance.
\<close>

theorem offset_clamp:
  "(\<forall>loan n s m. calculateLoanSchedule loan n = Some s \<and> m \<in> set (months s)
        \<and> \<not> allowRedraw loan \<longrightarrow> offsetBalance m \<le> startingBalance m)
   \<and> (\<forall>loan n s m. calculateLoanSchedule loan n = Some s \<and> m \<in> set (months s)
        \<and> allowRedraw loan \<longrightarrow>
          offsetBalance m = offsetStartCents loan + month m * offsetContribMonthlyCents loan)
   \<and> (\<exists>loan n s m. calculateLoanSchedule loan n = Some s \<and> m \<in> set (months s)
        \<and> allowRedraw loan \<and> startingBalance m < offsetBalance m)"
proof (intro conjI allI impI)
  fix loan n s and m :: LoanMonth
  assume a: "calculateLoanSchedule loan n = Some s \<and> m \<in> set (months s) \<and> \<not> allowRedraw loan"
  define I where "I = (\<lambda>v::LoopVars. \<forall>m \<in> set (schedule_v v). offsetBalance m \<le> startingBalance m)"
  from a obtain w where w: "loanLoop loan n (initialVars loan) = Some w"
    and ms: "months s = schedule_v w"
    using calculateLoanSchedule_SomeD by blast
  have "I (initialVars loan)"
    by (simp add: I_def initialVars_def)
  moreover have "I u'" if "I u" and "loanIteration loan n u = Some u'" for u u'
    using that a loanIteration_SomeD [OF that(2)]
    by (auto simp: I_def offsetAfterContribution_def Let_def)
  ultimately have "I w"
    using loanLoop_invariant [OF w, of I] by blast
  with a ms show "offsetBalance m \<le> startingBalance m"
    by (simp add: I_def)
next
  fix loan n s and m :: LoanMonth
  assume a: "calculateLoanSchedule loan n = Some s \<and> m \<in> set (months s) \<and> allowRedraw loan"
  define f where "f = (\<lambda>k. offsetStartCents loan + k * offsetContribMonthlyCents loan)"
  define I where "I = (\<lambda>v::LoopVars. (\<forall>m \<in> set (schedule_v v). offsetBalance m = f (month m))
                          \<and> offsetBalance_v v = f (month_v v - 1))"
  from a obtain w where w: "loanLoop loan n (initialVars loan) = Some w"
    and ms: "months s = schedule_v w"
    using calculateLoanSchedule_SomeD by blast
  have "I (initialVars loan)"
    by (simp add: I_def initialVars_def f_def)
  moreover have "I u'" if "I u" and "loanIteration loan n u = Some u'" for u u'
    using that a loanIteration_SomeD [OF that(2)]
    by (auto simp: I_def f_def offsetAfterContribution_def Let_def algebra_simps)
  ultimately have "I w"
    using loanLoop_invariant [OF w, of I] by blast
  with a ms show "offsetBalance m = offsetStartCents loan + month m * offsetContribMonthlyCents loan"
    by (simp add: I_def f_def)
next
  define m :: LoanMonth where "m =
     \<lparr> month = 1, date = (0, 0), startingBalance = 100000,
       offsetBalance = 500000, effectiveBalance = 0, interestCharged = 0,
       principalPayment = 0, totalPayment = 0, endingBalance = 100000,
       isInterestOnly = False \<rparr>"
  have "calculateLoanSchedule bankedLoan 1 =
          Some \<lparr> loanId = ''loan-2'', months = [m], totalInterest = 0, totalPayments = 0 \<rparr>
      \<and> m \<in> set (months \<lparr> loanId = ''loan-2'', months = [m], totalInterest = 0, totalPayments = 0 \<rparr>)
      \<and> allowRedraw bankedLoan \<and> startingBalance m < offsetBalance m"
    using bankedLoan_schedule by (simp add: m_def bankedLoan_def)
  then show "\<exists>loan n s m. calculateLoanSchedule loan n = Some s \<and> m \<in> set (months s)
        \<and> allowRedraw loan \<and> startingBalance m < offsetBalance m"
    by blast
qed

theorem offset_clamp_witness:
  "\<exists>s m. calculateLoanSchedule clampedLoan 1 = Some s \<and> m \<in> set (months s)
     \<and> \<not> allowRedraw clampedLoan \<and> offsetBalance m = 100000 \<and> startingBalance m = 100000
     \<and> offsetBalance m \<le> startingBalance m"
proof -
  define m :: LoanMonth where "m =
     \<lparr> month = 1, date = (0, 0), startingBalance = 100000, offsetBalance = 100000,
       effectiveBalance = 0, interestCharged = 0, principalPayment = 0,
       totalPayment = 0, endingBalance = 100000, isInterestOnly = False \<rparr>"
  obtain s where s: "calculateLoanSchedule clampedLoan 1 = Some s" and m: "m \<in> set (months s)"
    using clampedLoan_schedule by (simp add: m_def)
  have r: "\<not> allowRedraw clampedLoan"
    by (simp add: clampedLoan_def)
  have "offsetBalance m \<le> startingBalance m"
    using offset_clamp s m r by blast
  with s m r show ?thesis
    by (intro exI [of _ s] exI [of _ m]) (simp add: m_def)
qed

section \<open>The first month of the scenario in binary64 arithmetic\<close>

lemma binary64_eq:
  assumes "binary64_spacing x e"
  shows "binary64 x = binary64_at e x"
proof -
  have p: "(0::real) < 2 powi e" by simp
  from assms have lo: "2 ^ 52 * 2 powi e \<le> \<bar>x\<bar>" and hi: "\<bar>x\<bar> < 2 ^ 53 * 2 powi e"
    using p by (simp_all add: binary64_spacing_def pos_le_divide_eq pos_divide_less_eq)
  have "(0::real) < 2 ^ 52 * 2 powi e"
    by simp
  with lo have x0: "0 < \<bar>x\<bar>"
    by linarith
  have pw: "2 powr (of_int k) = (2::real) powi k" for k
    by (simp add: powr_real_of_int')
  have s52: "(2::real) powi (e + 52) = 2 ^ 52 * 2 powi e"
    by (simp add: power_int_add)
  have s53: "(2::real) powi (e + 52 + 1) = 2 ^ 53 * 2 powi e"
    by (simp add: power_int_add)
  have "2 powr (of_int (e + 52)) \<le> \<bar>x\<bar>"
    unfolding pw s52 by (rule lo)
  moreover have "\<bar>x\<bar> < 2 powr (of_int (e + 52) + 1)"
    using hi pw [of "e + 52 + 1"] s53 by simp
  ultimately have "\<lfloor>log 2 \<bar>x\<bar>\<rfloor> = e + 52"
    using x0 floor_log_eq_powr_iff [of "\<bar>x\<bar>" 2 "e + 52"] by simp
  with x0 show ?thesis
    by (simp add: binary64_def)
qed

text \<open>
  The source computes \<open>monthlyRate = 0.06 / 12\<close> and \<open>effectiveBalance * monthlyRate\<close> in
  binary64. The literal \<open>0.06\<close> is not a double; the three roundings still end on the
  tie 359,280.5, which \<open>Math.round\<close> takes up to 359,281. The balances are whole numbers
  below \<open>2 ^ 53\<close> and are exact.
\<close>

lemma binary64_rate: "binary64 (6 / 100) = 8646911284551352 / 2 ^ 57"
  using binary64_eq [of "6 / 100" "- 57"]
  by (simp add: binary64_spacing_def binary64_at_def roundHalfEven_def power_int_minus Let_def)

lemma binary64_monthlyRate: "binary64 (8646911284551352 / 2 ^ 57 / 12) = 5764607523034235 / 2 ^ 60"
  using binary64_eq [of "8646911284551352 / 2 ^ 57 / 12" "- 60"]
  by (simp add: binary64_spacing_def binary64_at_def roundHalfEven_def power_int_minus Let_def)

lemma binary64_product: "binary64 (71856100 * (5764607523034235 / 2 ^ 60)) = 718561 / 2"
  using binary64_eq [of "71856100 * (5764607523034235 / 2 ^ 60)" "- 34"]
  by (simp add: binary64_spacing_def binary64_at_def roundHalfEven_def power_int_minus Let_def)

lemma scenario_interest_binary64:
  "Math_round (binary64 (71856100 * binary64 (binary64 (6 / 100) / 12))) = 359281"
  unfolding binary64_rate binary64_monthlyRate binary64_product
  by (simp add: Math_round_def)

lemma binary64_rate_inexact: "binary64 (6 / 100) \<noteq> 6 / 100"
  unfolding binary64_rate by simp

section \<open>Interest with and without the offset\<close>

lemma calculateMonthlyPayment_paymentOver:
  assumes "1 \<le> n" and "0 \<le> rate"
  shows "calculateMonthlyPayment (of_int x) rate (of_int n / of_int MONTHS_PER_YEAR)
           = Some (paymentOver rate n x)"
proof (cases "rate = 0")
  case True
  then show ?thesis
    using calculateMonthlyPayment_months_zero [OF assms(1), of "of_int x"]
    by (simp add: paymentOver_def)
next
  case False
  moreover have "rate \<noteq> - 24" using assms(2) by simp
  ultimately show ?thesis
    using calculateMonthlyPayment_months [OF assms(1), of rate "of_int x"]
    by (simp add: paymentOver_def)
qed

lemma Math_round_mono: "x \<le> y \<Longrightarrow> Math_round x \<le> Math_round y"
  by (simp add: Math_round_def floor_mono)

lemma Math_round_add_int: "Math_round (of_int k + x) = k + Math_round x"
  by (simp add: Math_round_def add.assoc)

lemma Math_round_step:
  assumes "d \<le> 1"
  shows "Math_round (x + d) \<le> Math_round x + 1"
proof -
  have "Math_round (x + d) \<le> Math_round (x + 1)"
    using assms by (intro Math_round_mono) simp
  also have "\<dots> = Math_round x + 1"
    using Math_round_add_int [of 1 x] by (simp add: add.commute)
  finally show ?thesis .
qed

lemma Math_round_nonneg: "0 \<le> x \<Longrightarrow> 0 \<le> Math_round x"
  by (simp add: Math_round_def)

text \<open>The amortization factor is between 0 and 1 over at least two months.\<close>

lemma amortization_factor_le_1:
  fixes r :: real
  assumes "0 < r" and "r \<le> 1 / 12" and "2 \<le> n"
  shows "0 \<le> r * (1 + r) ^ n / ((1 + r) ^ n - 1)"
    and "r * (1 + r) ^ n / ((1 + r) ^ n - 1) \<le> 1"
proof -
  have g2: "(1 + r) ^ 2 \<le> (1 + r) ^ n"
    using assms(1,3) by (intro power_increasing) simp_all
  have g1: "1 < (1 + r) ^ n"
    using assms(1,3) by (intro one_less_power) simp_all
  then show "0 \<le> r * (1 + r) ^ n / ((1 + r) ^ n - 1)"
    using assms(1) by simp
  have "r * r + r \<le> 1"
  proof -
    have "r * r \<le> (1 / 12) * (1 / 12)"
      using assms(1,2) by (intro mult_mono) simp_all
    with assms(2) show ?thesis by simp
  qed
  then have "0 \<le> r * (1 - (r * r + r))"
    using assms(1) by (intro mult_nonneg_nonneg) simp_all
  moreover have "(1 + r) ^ 2 * (1 - r) = 1 + r * (1 - (r * r + r))"
    by (simp add: power2_eq_square algebra_simps)
  ultimately have "1 \<le> (1 + r) ^ 2 * (1 - r)"
    by simp
  also have "\<dots> \<le> (1 + r) ^ n * (1 - r)"
    using g2 assms(2) by (intro mult_right_mono) simp_all
  finally have "r * (1 + r) ^ n \<le> (1 + r) ^ n - 1"
    by (simp add: algebra_simps)
  with g1 show "r * (1 + r) ^ n / ((1 + r) ^ n - 1) \<le> 1"
    by (simp add: divide_le_eq)
qed


lemma principalPart_step:
  assumes "0 \<le> rate" and "rate \<le> 1" and "1 \<le> n"
  shows "principalPart rate n (x + 1) \<le> principalPart rate n x + 1"
proof (cases "rate = 0")
  case True
  have "Math_round (of_int (x + 1) / of_int n) = Math_round (of_int x / of_int n + 1 / of_int n)"
    by (simp add: add_divide_distrib)
  also have "\<dots> \<le> Math_round (of_int x / of_int n) + 1"
    using assms(3) by (intro Math_round_step) simp
  finally show ?thesis
    using True by (simp add: principalPart_def paymentOver_def)
next
  case False
  define r where "r = rate / 12"
  have r: "0 < r" "r \<le> 1 / 12"
    using assms(1,2) False by (simp_all add: r_def)
  have intr: "Math_round (of_int x * r) \<le> Math_round (of_int (x + 1) * r)"
    using r(1) by (intro Math_round_mono) (simp add: algebra_simps)
  show ?thesis
  proof (cases "n = 1")
    case True
    have "of_int y * (r * (1 + r)) / ((1 + r) - 1) = of_int y + of_int y * r" for y :: int
      using r(1) by (simp add: field_simps)
    then have "paymentOver rate 1 y = y + Math_round (of_int y * r)" for y
      using False by (simp add: paymentOver_def r_def [symmetric] Math_round_add_int)
    then show ?thesis
      using True by (simp add: principalPart_def r_def [symmetric])
  next
    case False
    with assms(3) have n2: "2 \<le> nat n" by simp
    define c where "c = r * (1 + r) ^ nat n / ((1 + r) ^ nat n - 1)"
    have c: "0 \<le> c" "c \<le> 1"
      using amortization_factor_le_1 [OF r n2] by (simp_all add: c_def)
    have pay: "paymentOver rate n y = Math_round (of_int y * c)" for y
      using \<open>rate \<noteq> 0\<close> by (simp add: paymentOver_def r_def [symmetric] c_def)
    have "Math_round (of_int (x + 1) * c) = Math_round (of_int x * c + c)"
      by (simp add: algebra_simps)
    also have "\<dots> \<le> Math_round (of_int x * c) + 1"
      using c(2) by (rule Math_round_step)
    finally show ?thesis
      using intr by (simp add: principalPart_def pay r_def [symmetric])
  qed
qed

lemma remainder_mono:
  assumes "0 \<le> rate" and "rate \<le> 1" and "1 \<le> n" and "e \<le> e0"
  shows "e - principalPart rate n e \<le> e0 - principalPart rate n e0"
  using assms(4)
proof (induction e0 rule: int_ge_induct)
  case base
  show ?case by simp
next
  case (step i)
  have "principalPart rate n (i + 1) \<le> principalPart rate n i + 1"
    using assms(1-3) by (rule principalPart_step)
  with step.IH show ?case by simp
qed

lemma piBranch_explicit:
  assumes "0 \<le> annualRate loan" and "mth \<le> n"
  shows "piBranch loan n mth cb eb i =
           Some (let q = paymentOver (annualRate loan) (n - mth + 1) eb - i
                 in if q > cb then (cb, cb + i) else (q, q + i))"
proof -
  have n1: "1 \<le> n - mth + 1"
    using assms(2) by simp
  have "calculateMonthlyPayment (of_int eb) (annualRate loan)
               (of_int (n - mth + 1) / of_int MONTHS_PER_YEAR)
             = Some (paymentOver (annualRate loan) (n - mth + 1) eb)"
    using calculateMonthlyPayment_paymentOver [OF n1 assms(1)] by simp
  then show ?thesis
    by (simp add: piBranch_def Let_def del: of_int_diff of_int_add)
qed

lemma loanIteration_explicit:
  assumes "0 \<le> annualRate loan" and "month_v v \<le> n"
  shows "\<exists>v'. loanIteration loan n v = Some v'
           \<and> month_v v' = month_v v + 1
           \<and> offsetBalance_v v' = offsetAfterContribution loan v
           \<and> totalInterest_v v' = totalInterest_v v + interestOf loan v
           \<and> currentBalance_v v' = currentBalance_v v - principalOf loan n v"
  by (simp add: loanIteration_def piBranch_explicit [OF assms] Let_def MONTHS_PER_YEAR_def
      effectiveOf_def interestOf_def principalOf_def principalPart_def
      offsetAfterContribution_def del: of_int_diff of_int_add)

lemma interestOf_nonneg:
  assumes "0 \<le> annualRate loan"
  shows "0 \<le> interestOf loan v"
proof -
  have "0 \<le> effectiveOf loan v"
    by (simp add: effectiveOf_def)
  then have "0 \<le> real_of_int (effectiveOf loan v) * (annualRate loan / 12)"
    using assms by (intro mult_nonneg_nonneg) simp_all
  then show ?thesis
    unfolding interestOf_def by (rule Math_round_nonneg)
qed

lemma interest_nonneg:
  assumes "0 \<le> annualRate loan" and "loanLoop loan n v = Some w"
  shows "totalInterest_v v \<le> totalInterest_v w"
proof -
  define I where "I = (\<lambda>u::LoopVars. totalInterest_v v \<le> totalInterest_v u)"
  have "I v" by (simp add: I_def)
  moreover have "I u'" if "I u" and "month_v u \<le> n"
    and "loanIteration loan n u = Some u'" for u u'
  proof -
    from loanIteration_explicit [OF assms(1) that(2)] that(3)
    have "totalInterest_v u' = totalInterest_v u + interestOf loan u"
      by auto
    with that(1) interestOf_nonneg [OF assms(1), of u] show ?thesis
      by (simp add: I_def)
  qed
  ultimately show ?thesis
    using loanLoop_invariant [OF assms(2), of I] by (simp add: I_def)
qed


lemma covered_step:
  assumes "0 \<le> annualRate loan" and "0 \<le> offsetContribMonthlyCents loan"
    and "currentBalance_v u \<le> offsetBalance_v u" and "month_v u \<le> n"
    and "loanIteration loan n u = Some u'"
  shows "totalInterest_v u' = totalInterest_v u \<and> currentBalance_v u' \<le> offsetBalance_v u'"
proof -
  from loanIteration_explicit [OF assms(1,4)] assms(5) have u':
    "offsetBalance_v u' = offsetAfterContribution loan u"
    "totalInterest_v u' = totalInterest_v u + interestOf loan u"
    "currentBalance_v u' = currentBalance_v u - principalOf loan n u"
    by auto
  have cov: "currentBalance_v u \<le> offsetAfterContribution loan u"
    using assms(2,3) by (simp add: offsetAfterContribution_def Let_def)
  then have e: "effectiveOf loan u = 0"
    by (simp add: effectiveOf_def)
  have i: "interestOf loan u = 0"
    unfolding interestOf_def e by (simp add: Math_round_def)
  have p: "principalOf loan n u = 0"
    unfolding principalOf_def e by simp
  show ?thesis
    unfolding u' i p using cov by simp
qed

lemma no_interest_when_covered:
  assumes "0 \<le> annualRate loan" and "0 \<le> offsetContribMonthlyCents loan"
    and "currentBalance_v v \<le> offsetBalance_v v"
    and "loanLoop loan n v = Some w"
  shows "totalInterest_v w = totalInterest_v v"
proof -
  define I where "I = (\<lambda>u::LoopVars. totalInterest_v u = totalInterest_v v
                          \<and> currentBalance_v u \<le> offsetBalance_v u)"
  have "I v" using assms(3) by (simp add: I_def)
  moreover have "I u'" if "I u" and "month_v u \<le> n"
    and "loanIteration loan n u = Some u'" for u u'
    using covered_step [OF assms(1,2) _ that(2,3)] that(1) by (simp add: I_def)
  ultimately have "I w"
    using loanLoop_invariant [OF assms(4), of I] by blast
  then show ?thesis
    by (simp add: I_def)
qed

lemma lockstep_step:
  assumes rate: "0 \<le> annualRate loan" "annualRate loan \<le> 1"
    and contrib: "0 \<le> offsetContribMonthlyCents loan"
    and bare: "bare = loan \<lparr> offsetStartCents := 0, offsetContribMonthlyCents := 0 \<rparr>"
    and mon: "month_v v0 = month_v v" "month_v v \<le> n"
    and inv: "0 \<le> offsetBalance_v v" "offsetBalance_v v0 = 0"
      "0 < currentBalance_v v" "0 < currentBalance_v v0"
      "max 0 (currentBalance_v v - offsetBalance_v v) \<le> currentBalance_v v0"
    and it: "loanIteration loan n v = Some v1" "loanIteration bare n v0 = Some v01"
  shows "month_v v01 = month_v v1 \<and> 0 \<le> offsetBalance_v v1 \<and> offsetBalance_v v01 = 0
       \<and> 0 \<le> currentBalance_v v01
       \<and> max 0 (currentBalance_v v1 - offsetBalance_v v1) \<le> currentBalance_v v01
       \<and> totalInterest_v v1 - totalInterest_v v \<le> totalInterest_v v01 - totalInterest_v v0"
proof -
  have rate0: "0 \<le> annualRate bare" and same: "annualRate bare = annualRate loan"
    "ioYears bare = ioYears loan" "allowRedraw bare = allowRedraw loan"
    "offsetContribMonthlyCents bare = 0"
    using rate(1) by (simp_all add: bare)
  from loanIteration_explicit [OF rate(1) mon(2)] it(1) have v1:
    "month_v v1 = month_v v + 1"
    "offsetBalance_v v1 = offsetAfterContribution loan v"
    "totalInterest_v v1 = totalInterest_v v + interestOf loan v"
    "currentBalance_v v1 = currentBalance_v v - principalOf loan n v"
    by auto
  have "month_v v0 \<le> n" using mon by simp
  from loanIteration_explicit [OF rate0 this] it(2) have v01:
    "month_v v01 = month_v v0 + 1"
    "offsetBalance_v v01 = offsetAfterContribution bare v0"
    "totalInterest_v v01 = totalInterest_v v0 + interestOf bare v0"
    "currentBalance_v v01 = currentBalance_v v0 - principalOf bare n v0"
    by auto
  define cb where "cb = currentBalance_v v"
  define cb0 where "cb0 = currentBalance_v v0"
  define ob' where "ob' = offsetAfterContribution loan v"
  define e where "e = effectiveOf loan v"
  define m where "m = n - month_v v + 1"
  have ob0: "offsetAfterContribution bare v0 = 0"
    using inv(2,4) by (simp add: offsetAfterContribution_def same Let_def)
  then have e0: "effectiveOf bare v0 = cb0"
    using inv(4) by (simp add: effectiveOf_def cb0_def)
  have F1: "0 \<le> ob'"
    using inv(1,3) contrib by (auto simp: ob'_def offsetAfterContribution_def Let_def)
  have F2: "e = max 0 (cb - ob')"
    by (simp add: e_def effectiveOf_def cb_def ob'_def)
  have F3: "e \<le> cb0"
    using inv(1,3,4,5) contrib
    by (auto simp: F2 ob'_def cb_def cb0_def offsetAfterContribution_def Let_def)
  have F4: "e - principalPart (annualRate loan) m e \<le> cb0 - principalPart (annualRate loan) m cb0"
    using mon(2) by (intro remainder_mono rate F3) (simp add: m_def)
  have int: "interestOf loan v \<le> interestOf bare v0"
    unfolding interestOf_def e0 same e_def [symmetric]
    using F3 rate(1) by (intro Math_round_mono mult_right_mono) simp_all
  have p: "principalOf loan n v =
      (if month_v v \<le> ioYears loan * 12 \<or> e \<le> 0 then 0
       else if principalPart (annualRate loan) m e > cb then cb
       else principalPart (annualRate loan) m e)"
    by (simp add: principalOf_def Let_def e_def m_def cb_def)
  have p0: "principalOf bare n v0 =
      (if month_v v \<le> ioYears loan * 12 then 0
       else if principalPart (annualRate loan) m cb0 > cb0 then cb0
       else principalPart (annualRate loan) m cb0)"
    using inv(4) by (simp add: principalOf_def Let_def e0 same mon(1) m_def cb0_def)
  have bal: "0 \<le> cb0 - principalOf bare n v0"
    using inv(4) by (simp add: p0 cb0_def)
  have eff: "max 0 (cb - principalOf loan n v - ob') \<le> cb0 - principalOf bare n v0"
    using F1 F2 F3 F4 inv(3,4) unfolding p p0 cb_def [symmetric] cb0_def [symmetric]
    by (auto simp: max_def split: if_splits)
  show ?thesis
    using v1 v01 mon(1) F1 ob0 bal eff int
    by (simp add: cb_def cb0_def ob'_def)
qed

lemma loanLoop_done:
  "\<not> (month_v v \<le> n \<and> 0 < currentBalance_v v) \<Longrightarrow> loanLoop loan n v = Some v"
  by (subst loanLoop.simps) auto

lemma loanLoop_unfold:
  assumes "month_v v \<le> n" and "0 < currentBalance_v v" and "loanLoop loan n v = Some w"
  shows "\<exists>v1. loanIteration loan n v = Some v1 \<and> loanLoop loan n v1 = Some w"
  using assms by (auto simp: loanLoop.simps [of loan n v] split: option.splits)

lemma offset_interest_le:
  assumes rate: "0 \<le> annualRate loan" "annualRate loan \<le> 1"
    and contrib: "0 \<le> offsetContribMonthlyCents loan"
    and bare: "bare = loan \<lparr> offsetStartCents := 0, offsetContribMonthlyCents := 0 \<rparr>"
  shows "month_v v0 = month_v v \<Longrightarrow> 0 \<le> offsetBalance_v v \<Longrightarrow> offsetBalance_v v0 = 0
     \<Longrightarrow> 0 \<le> currentBalance_v v0
     \<Longrightarrow> max 0 (currentBalance_v v - offsetBalance_v v) \<le> currentBalance_v v0
     \<Longrightarrow> loanLoop loan n v = Some w \<Longrightarrow> loanLoop bare n v0 = Some w0
     \<Longrightarrow> totalInterest_v w - totalInterest_v v \<le> totalInterest_v w0 - totalInterest_v v0"
proof (induction "nat (n + 1 - month_v v)" arbitrary: v v0)
  case 0
  then have "\<not> month_v v \<le> n" and "\<not> month_v v0 \<le> n"
    by simp_all
  then have "loanLoop loan n v = Some v" and "loanLoop bare n v0 = Some v0"
    by (simp_all add: loanLoop_done)
  with "0.prems" show ?case by simp
next
  case (Suc j)
  then have k: "month_v v \<le> n" by simp
  have rate0: "0 \<le> annualRate bare"
    using rate(1) by (simp add: bare)
  show ?case
  proof (cases "0 < currentBalance_v v")
    case False
    then have "loanLoop loan n v = Some v"
      by (simp add: loanLoop_done)
    with Suc.prems(6) have "w = v" by simp
    with interest_nonneg [OF rate0 Suc.prems(7)] show ?thesis by simp
  next
    case True
    from loanLoop_unfold [OF k True Suc.prems(6)] obtain v1
      where it: "loanIteration loan n v = Some v1" and rest: "loanLoop loan n v1 = Some w"
      by blast
    show ?thesis
    proof (cases "0 < currentBalance_v v0")
      case False
      then have "loanLoop bare n v0 = Some v0"
        by (simp add: loanLoop_done)
      with Suc.prems(7) have w0: "w0 = v0" by simp
      from False Suc.prems(4,5) have "currentBalance_v v \<le> offsetBalance_v v"
        by simp
      from no_interest_when_covered [OF rate(1) contrib this Suc.prems(6)] w0
      show ?thesis by simp
    next
      case pos: True
      have k0: "month_v v0 \<le> n" using k Suc.prems(1) by simp
      from loanLoop_unfold [OF k0 pos Suc.prems(7)] obtain v01
        where it0: "loanIteration bare n v0 = Some v01"
          and rest0: "loanLoop bare n v01 = Some w0"
        by blast
      from lockstep_step [OF rate contrib bare Suc.prems(1) k Suc.prems(2,3) True pos
          Suc.prems(5) it it0]
      have st: "month_v v01 = month_v v1" "0 \<le> offsetBalance_v v1" "offsetBalance_v v01 = 0"
        "0 \<le> currentBalance_v v01"
        "max 0 (currentBalance_v v1 - offsetBalance_v v1) \<le> currentBalance_v v01"
        "totalInterest_v v1 - totalInterest_v v \<le> totalInterest_v v01 - totalInterest_v v0"
        by simp_all
      have "month_v v1 = month_v v + 1"
        using loanIteration_SomeD [OF it] by auto
      with Suc.hyps(2) have "j = nat (n + 1 - month_v v1)"
        by simp
      from Suc.hyps(1) [OF this st(1-5) rest rest0] st(6) show ?thesis
        by simp
    qed
  qed
qed

text \<open>
  C5. For a loan within the constraints of the data model (an annual rate from 0 to 1,
  a starting offset and a monthly offset contribution that are not negative) with a
  positive starting offset or a positive contribution, and for every number of months,
  \<open>calculateOffsetSavings\<close> has a value and it is not negative: the schedule with the
  offset zeroed charges at least as much interest in total as the schedule as given.
\<close>

theorem offset_savings_nonneg:
  assumes "0 \<le> annualRate loan" and "annualRate loan \<le> 1"
    and "0 \<le> offsetStartCents loan" and "0 \<le> offsetContribMonthlyCents loan"
    and "0 < offsetStartCents loan \<or> 0 < offsetContribMonthlyCents loan"
  shows "\<exists>saved. calculateOffsetSavings loan n = Some saved \<and> 0 \<le> saved"
proof -
  define bare where "bare = loan \<lparr> offsetStartCents := 0, offsetContribMonthlyCents := 0 \<rparr>"
  have r: "annualRate loan \<noteq> - 24" "annualRate bare \<noteq> - 24"
    using assms(1) by (simp_all add: bare_def)
  obtain w where w: "loanLoop loan n (initialVars loan) = Some w"
    using loanLoop_total [OF r(1)] by blast
  obtain w0 where w0: "loanLoop bare n (initialVars bare) = Some w0"
    using loanLoop_total [OF r(2)] by blast
  have sav: "calculateOffsetSavings loan n = Some (totalInterest_v w0 - totalInterest_v w)"
    using w w0 by (simp add: calculateOffsetSavings_def calculateLoanSchedule_def bare_def)
  have "totalInterest_v w \<le> totalInterest_v w0"
  proof (cases "0 < startBalanceCents loan")
    case False
    then have "loanLoop loan n (initialVars loan) = Some (initialVars loan)"
      and "loanLoop bare n (initialVars bare) = Some (initialVars bare)"
      by (simp_all add: loanLoop_done initialVars_def bare_def)
    with w w0 show ?thesis
      by (simp add: initialVars_def)
  next
    case True
    have "totalInterest_v w - totalInterest_v (initialVars loan)
            \<le> totalInterest_v w0 - totalInterest_v (initialVars bare)"
      using True assms(3)
      by (intro offset_interest_le [OF assms(1,2,4) bare_def _ _ _ _ _ w w0])
         (simp_all add: initialVars_def bare_def)
    then show ?thesis
      by (simp add: initialVars_def)
  qed
  with sav show ?thesis by simp
qed

lemma plainLoan_savings: "calculateOffsetSavings plainLoan 2 = Some 163"
  by code_simp

theorem offset_savings_nonneg_witness:
  "0 \<le> annualRate plainLoan \<and> annualRate plainLoan \<le> 1
   \<and> 0 \<le> offsetStartCents plainLoan \<and> 0 \<le> offsetContribMonthlyCents plainLoan
   \<and> (0 < offsetStartCents plainLoan \<or> 0 < offsetContribMonthlyCents plainLoan)
   \<and> calculateOffsetSavings plainLoan 2 = Some 163 \<and> (0::int) \<le> 163"
proof -
  have h: "0 \<le> annualRate plainLoan" "annualRate plainLoan \<le> 1"
    "0 \<le> offsetStartCents plainLoan" "0 \<le> offsetContribMonthlyCents plainLoan"
    "0 < offsetStartCents plainLoan \<or> 0 < offsetContribMonthlyCents plainLoan"
    by (simp_all add: plainLoan_def)
  from offset_savings_nonneg [OF h, of 2] obtain saved
    where "calculateOffsetSavings plainLoan 2 = Some saved" and "0 \<le> saved"
    by blast
  with h plainLoan_savings show ?thesis
    by simp
qed

section \<open>The forecast loop\<close>

declare forecastLoop.simps [simp del]

lemma Math_pow_pos:
  assumes "0 < x"
  shows "\<exists>g. Math_pow x y = Some g \<and> 0 < g"
  using assms by (auto simp: Math_pow_def)

lemma Math_pow_zero_exponent: "Math_pow x 0 = Some 1"
  by (simp add: Math_pow_def)

lemma rentalIncomeLoop_sum:
  "rentalIncomeLoop ps t =
     t + (\<Sum>p\<leftarrow>ps. of_int (rentPwCents p * (52 - vacancyWeeksPa p)) / 12)"
  by (induction ps arbitrary: t) (simp_all add: Let_def)

lemma propertyExpensesLoop_total:
  assumes "\<forall>p \<in> set ps. 0 < 1 + valueGrowthPa p"
  shows "\<exists>r. propertyExpensesLoop ps y t = Some r"
  using assms
proof (induction ps arbitrary: t)
  case Nil
  then show ?case by simp
next
  case (Cons p ps)
  then obtain g where "Math_pow (1 + valueGrowthPa p) y = Some g"
    using Math_pow_pos [of "1 + valueGrowthPa p" y] by auto
  with Cons show ?case by (simp add: Let_def)
qed

lemma propertyValuesLoop_total:
  assumes "\<forall>p \<in> set ps. 0 < 1 + valueGrowthPa p"
  shows "\<exists>r. propertyValuesLoop ps y t = Some r"
  using assms
proof (induction ps arbitrary: t)
  case Nil
  then show ?case by simp
next
  case (Cons p ps)
  then obtain g where "Math_pow (1 + valueGrowthPa p) y = Some g"
    using Math_pow_pos [of "1 + valueGrowthPa p" y] by auto
  with Cons show ?case by simp
qed

lemma loanPaymentsLoop_total:
  assumes "\<forall>l \<in> set ls. annualRate l \<noteq> - 24"
  shows "\<exists>r. loanPaymentsLoop ls k t = Some r"
  using assms
proof (induction ls arbitrary: t)
  case Nil
  then show ?case by simp
next
  case (Cons l ls)
  then obtain s where "calculateLoanSchedule l (min k (termYears l * 12)) = Some s"
    using calculateLoanSchedule_total [of l "min k (termYears l * 12)"] by auto
  with Cons show ?case by simp
qed

lemma totalDebtLoop_total:
  assumes "\<forall>l \<in> set ls. annualRate l \<noteq> - 24"
  shows "\<exists>r. totalDebtLoop ls k t = Some r"
  using assms
proof (induction ls arbitrary: t)
  case Nil
  then show ?case by simp
next
  case (Cons l ls)
  then obtain s where "calculateLoanSchedule l (min k (termYears l * 12)) = Some s"
    using calculateLoanSchedule_total [of l "min k (termYears l * 12)"] by auto
  with Cons show ?case by simp
qed

lemma calculatePresentValue_total:
  assumes "0 < 1 + cpi"
  shows "\<exists>r. calculatePresentValue x cpi y = Some r"
proof -
  obtain g where "Math_pow (1 + cpi) y = Some g" and "0 < g"
    using Math_pow_pos [OF assms, of y] by auto
  then show ?thesis by (simp add: calculatePresentValue_def divide_js_def)
qed

lemma forecastIteration_total:
  assumes "finiteRates scenario"
  shows "\<exists>v'. forecastIteration scenario sal liv v = Some v'"
proof -
  define y where "y = (of_int (month_f v) - 1) / (12::real)"
  obtain wf where 1: "Math_pow (1 + wageGrowthPa (profile scenario)) y = Some wf"
    using Math_pow_pos [of "1 + wageGrowthPa (profile scenario)" y] assms
    by (auto simp: finiteRates_def)
  obtain cf where 2: "Math_pow (1 + inflationCpiPa (profile scenario)) y = Some cf"
    using Math_pow_pos [of "1 + inflationCpiPa (profile scenario)" y] assms
    by (auto simp: finiteRates_def)
  have ps: "\<forall>p \<in> set (properties scenario). 0 < 1 + valueGrowthPa p"
    and ls: "\<forall>l \<in> set (loans scenario). annualRate l \<noteq> - 24"
    using assms by (auto simp: finiteRates_def list_all_iff)
  obtain pe where 3: "propertyExpensesLoop (properties scenario) y 0 = Some pe"
    using propertyExpensesLoop_total [OF ps] by blast
  obtain lp where 4: "loanPaymentsLoop (loans scenario) (month_f v) 0 = Some lp"
    using loanPaymentsLoop_total [OF ls] by blast
  obtain pv where 5: "propertyValuesLoop (properties scenario) y 0 = Some pv"
    using propertyValuesLoop_total [OF ps] by blast
  obtain td where 6: "totalDebtLoop (loans scenario) (month_f v) 0 = Some td"
    using totalDebtLoop_total [OF ls] by blast
  have 7: "\<exists>r. calculatePresentValue x (inflationCpiPa (profile scenario)) y = Some r" for x
    using calculatePresentValue_total assms by (auto simp: finiteRates_def)
  obtain r where "calculatePresentValue
      (pv + superBalance_f v * (1 + returnSuperPa (profile scenario) / 12) + portfolioBalance_f v
        + (cashBuffer_f v + (sal * wf + rentalIncomeLoop (properties scenario) 0
             - (liv * cf + pe + of_int lp))) - of_int td)
      (inflationCpiPa (profile scenario)) y = Some r"
    using 7 by blast
  with 1 2 3 4 5 6 show ?thesis
    by (simp add: forecastIteration_def Let_def y_def)
qed

lemma forecastIteration_SomeD:
  assumes "forecastIteration scenario sal liv v = Some v'"
  shows "\<exists>m wf cf. forecast_f v' = forecast_f v @ [m]
           \<and> month_f v' = month_f v + 1
           \<and> cashBuffer_f v' = cashBuffer m
           \<and> superBalance_f v' = superBalance m
           \<and> portfolioBalance_f v' = portfolioBalance_f v
           \<and> month_F m = month_f v
           \<and> portfolioBalance m = portfolioBalance_f v
           \<and> rentalIncome m = rentalIncomeLoop (properties scenario) 0
           \<and> propertyValuesLoop (properties scenario) ((of_int (month_f v) - 1) / 12) 0
               = Some (propertyValues m)
           \<and> totalAssets m = propertyValues m + superBalance m + portfolioBalance m + cashBuffer m
           \<and> cashBuffer m = cashBuffer_f v + netCashflow m
           \<and> superBalance m = superBalance_f v * (1 + returnSuperPa (profile scenario) / 12)
           \<and> Math_pow (1 + wageGrowthPa (profile scenario)) ((of_int (month_f v) - 1) / 12) = Some wf
           \<and> salaryAfterTax m = sal * wf
           \<and> Math_pow (1 + inflationCpiPa (profile scenario)) ((of_int (month_f v) - 1) / 12) = Some cf
           \<and> livingExpenses m = liv * cf"
  using assms
  by (auto simp: forecastIteration_def Let_def split: Option.bind_splits)

lemma forecastLoop_invariant_aux:
  "forecastLoop scenario sal liv n v = Some w \<Longrightarrow>
   (\<forall>u u'. I u \<longrightarrow> month_f u \<le> n \<longrightarrow> forecastIteration scenario sal liv u = Some u' \<longrightarrow> I u') \<Longrightarrow>
   I v \<Longrightarrow> I w"
proof (induction scenario sal liv n v rule: forecastLoop.induct)
  case (1 scenario sal liv n v)
  show ?case
  proof (cases "month_f v \<le> n")
    case False
    with "1.prems" show ?thesis
      by (simp add: forecastLoop.simps [of scenario sal liv n v])
  next
    case True
    with "1.prems"(1) obtain v' where it: "forecastIteration scenario sal liv v = Some v'"
      and rest: "forecastLoop scenario sal liv n v' = Some w"
      by (auto simp: forecastLoop.simps [of scenario sal liv n v] split: option.splits)
    have "I v'"
      using "1.prems"(2,3) True it by blast
    with "1.IH" [OF True it rest "1.prems"(2)] show ?thesis by blast
  qed
qed

lemma forecastLoop_invariant:
  assumes "forecastLoop scenario sal liv n v = Some w" and "I v"
    and "\<And>u u'. I u \<Longrightarrow> month_f u \<le> n
           \<Longrightarrow> forecastIteration scenario sal liv u = Some u' \<Longrightarrow> I u'"
  shows "I w"
  using forecastLoop_invariant_aux [of scenario sal liv n v w I] assms by blast

lemma forecastLoop_total:
  "finiteRates scenario \<Longrightarrow> \<exists>w. forecastLoop scenario sal liv n v = Some w"
proof (induction scenario sal liv n v rule: forecastLoop.induct)
  case (1 scenario sal liv n v)
  show ?case
  proof (cases "month_f v \<le> n")
    case False
    then have "forecastLoop scenario sal liv n v = Some v"
      by (subst forecastLoop.simps) auto
    then show ?thesis by blast
  next
    case True
    obtain v' where it: "forecastIteration scenario sal liv v = Some v'"
      using forecastIteration_total [OF "1.prems", of sal liv v] by auto
    from "1.IH" [OF True it "1.prems"] obtain w
      where "forecastLoop scenario sal liv n v' = Some w" ..
    with True it have "forecastLoop scenario sal liv n v = Some w"
      by (subst forecastLoop.simps) simp
    then show ?thesis by blast
  qed
qed

lemma runForecast_SomeD:
  assumes "runForecast scenario = Some forecast"
  shows "\<exists>w. forecastLoop scenario
               (of_int (calculateAfterTaxIncome 12000000 (medicareLevy (profile scenario))) / 12)
               500000 (horizonYears scenario * 12) forecastStart = Some w
             \<and> forecast = forecast_f w"
  using assms by (auto simp: runForecast_def Let_def)

lemma runForecast_total:
  "finiteRates scenario \<Longrightarrow> \<exists>forecast. runForecast scenario = Some forecast"
  using forecastLoop_total [of scenario]
  by (auto simp: runForecast_def Let_def)

lemma forecastLoop_cong:
  "(\<forall>u. forecastIteration s1 sal liv u = forecastIteration s2 sal liv u) \<Longrightarrow>
   forecastLoop s1 sal liv n v = forecastLoop s2 sal liv n v"
proof (induction s2 sal liv n v rule: forecastLoop.induct)
  case (1 s2 sal liv n v)
  show ?case
  proof (cases "month_f v \<le> n")
    case False
    then show ?thesis
      by (simp add: forecastLoop.simps [of _ sal liv n v])
  next
    case True
    show ?thesis
    proof (cases "forecastIteration s2 sal liv v")
      case None
      with True "1.prems" show ?thesis
        by (simp add: forecastLoop.simps [of _ sal liv n v])
    next
      case (Some v')
      from "1.IH" [OF True Some "1.prems"] True Some "1.prems" show ?thesis
        by (simp add: forecastLoop.simps [of _ sal liv n v])
    qed
  qed
qed

lemma forecastLoop_forecast_extends:
  assumes "forecastLoop scenario sal liv n v = Some w"
  shows "\<exists>ys. forecast_f w = forecast_f v @ ys"
proof -
  define I where "I = (\<lambda>u::ForecastVars. \<exists>ys. forecast_f u = forecast_f v @ ys)"
  have "I v" by (simp add: I_def)
  moreover have "I u'" if "I u" and "forecastIteration scenario sal liv u = Some u'" for u u'
    using that forecastIteration_SomeD [OF that(2)] by (auto simp: I_def)
  ultimately have "I w"
    using forecastLoop_invariant [OF assms, of I] by blast
  then show ?thesis by (simp add: I_def)
qed

text \<open>The first record of a forecast over at least one year.\<close>

lemma runForecast_first_month:
  assumes "runForecast scenario = Some forecast" and "1 \<le> horizonYears scenario"
  shows "\<exists>m rest. forecast = m # rest \<and> month_F m = 1
           \<and> salaryAfterTax m =
               of_int (calculateAfterTaxIncome 12000000 (medicareLevy (profile scenario))) / 12
           \<and> livingExpenses m = 500000
           \<and> cashBuffer m = 1000000 + netCashflow m
           \<and> superBalance m = 50000000 * (1 + returnSuperPa (profile scenario) / 12)
           \<and> portfolioBalance m = 0"
proof -
  define sal where
    "sal = of_int (calculateAfterTaxIncome 12000000 (medicareLevy (profile scenario))) / (12::real)"
  define n where "n = horizonYears scenario * 12"
  from runForecast_SomeD [OF assms(1)] obtain w
    where w: "forecastLoop scenario sal 500000 n forecastStart = Some w"
      and f: "forecast = forecast_f w"
    by (auto simp: sal_def n_def)
  have "month_f forecastStart \<le> n"
    using assms(2) by (simp add: forecastStart_def n_def)
  with w obtain v1 where it: "forecastIteration scenario sal 500000 forecastStart = Some v1"
    and rest: "forecastLoop scenario sal 500000 n v1 = Some w"
    by (auto simp: forecastLoop.simps [of scenario sal 500000 n forecastStart] split: option.splits)
  from forecastIteration_SomeD [OF it] obtain m wf cf where m:
    "forecast_f v1 = forecast_f forecastStart @ [m]"
    "month_F m = month_f forecastStart"
    "portfolioBalance m = portfolioBalance_f forecastStart"
    "cashBuffer m = cashBuffer_f forecastStart + netCashflow m"
    "superBalance m = superBalance_f forecastStart * (1 + returnSuperPa (profile scenario) / 12)"
    "Math_pow (1 + wageGrowthPa (profile scenario)) ((of_int (month_f forecastStart) - 1) / 12) = Some wf"
    "salaryAfterTax m = sal * wf"
    "Math_pow (1 + inflationCpiPa (profile scenario)) ((of_int (month_f forecastStart) - 1) / 12) = Some cf"
    "livingExpenses m = 500000 * cf"
    by blast
  have "wf = 1" and "cf = 1"
    using m(6,8) by (simp_all add: forecastStart_def Math_pow_zero_exponent)
  moreover obtain ys where "forecast_f w = m # ys"
    using forecastLoop_forecast_extends [OF rest] m(1) by (auto simp: forecastStart_def)
  ultimately show ?thesis
    using m f by (simp add: forecastStart_def sal_def)
qed

lemma exampleScenario_finiteRates: "finiteRates exampleScenario"
  by (simp add: finiteRates_def exampleScenario_def exampleProfile_def exampleProperty_def
      scenarioLoan_def)

lemma calculateAfterTaxIncome_demo: "calculateAfterTaxIncome 12000000 (2 / 100) = 8809500"
  by (simp add: calculateAfterTaxIncome_def AU_TAX_BRACKETS_def Let_def Math_round_def)

text \<open>
  C2. The forecast of the example scenario: its first record carries the after-tax
  monthly salary of a fixed 12,000,000 cents a year (734,125 a month at the 2\% levy),
  living expenses of a fixed 500,000 cents, a cash buffer that starts from a fixed
  1,000,000 cents and a retirement balance that starts from a fixed 50,000,000 cents.
  None of the four is read from the scenario or its profile.
\<close>

theorem demo_constants_in_forecast:
  "\<exists>forecast m rest. runForecast exampleScenario = Some forecast \<and> forecast = m # rest
     \<and> salaryAfterTax m = 734125 \<and> livingExpenses m = 500000
     \<and> cashBuffer m = 1000000 + netCashflow m
     \<and> superBalance m = 50000000 * (1 + (7 / 100) / 12)"
proof -
  obtain forecast where f: "runForecast exampleScenario = Some forecast"
    using runForecast_total [OF exampleScenario_finiteRates] by blast
  have h: "1 \<le> horizonYears exampleScenario"
    by (simp add: exampleScenario_def)
  have lev: "medicareLevy (profile exampleScenario) = 2 / 100"
    and sup: "returnSuperPa (profile exampleScenario) = 7 / 100"
    by (simp_all add: exampleScenario_def exampleProfile_def)
  from runForecast_first_month [OF f h] obtain m rest where m: "forecast = m # rest"
    "salaryAfterTax m =
       of_int (calculateAfterTaxIncome 12000000 (medicareLevy (profile exampleScenario))) / 12"
    "livingExpenses m = 500000" "cashBuffer m = 1000000 + netCashflow m"
    "superBalance m = 50000000 * (1 + returnSuperPa (profile exampleScenario) / 12)"
    by blast
  have "salaryAfterTax m = 734125"
    unfolding m(2) lev calculateAfterTaxIncome_demo by simp
  moreover have "superBalance m = 50000000 * (1 + (7 / 100) / 12)"
    unfolding m(5) sup by simp
  ultimately show ?thesis
    using f m(1,3,4) by blast
qed

text \<open>
  C9. In every record of a forecast that \<open>runForecast\<close> returns the portfolio balance is
  zero, so the total assets are the property values plus the retirement balance plus
  the cash buffer, and the profile's \<open>returnPortfolioPa\<close> has no effect: the forecast is
  the same for every value of it.
\<close>

theorem portfolio_never_funded:
  assumes "runForecast scenario = Some forecast" and "m \<in> set forecast"
  shows "portfolioBalance m = 0
       \<and> totalAssets m = propertyValues m + superBalance m + cashBuffer m
       \<and> runForecast (scenario \<lparr> profile := (profile scenario) \<lparr> returnPortfolioPa := x \<rparr> \<rparr>)
           = Some forecast"
proof -
  define sal where
    "sal = of_int (calculateAfterTaxIncome 12000000 (medicareLevy (profile scenario))) / (12::real)"
  define I where "I = (\<lambda>v::ForecastVars. portfolioBalance_f v = 0
       \<and> (\<forall>m \<in> set (forecast_f v). portfolioBalance m = 0
             \<and> totalAssets m = propertyValues m + superBalance m + cashBuffer m))"
  from runForecast_SomeD [OF assms(1)] obtain w
    where w: "forecastLoop scenario sal 500000 (horizonYears scenario * 12) forecastStart = Some w"
      and f: "forecast = forecast_f w"
    by (auto simp: sal_def)
  have "I forecastStart"
    by (simp add: I_def forecastStart_def)
  moreover have "I u'" if "I u" and "forecastIteration scenario sal 500000 u = Some u'" for u u'
    using that forecastIteration_SomeD [OF that(2)] by (auto simp: I_def)
  ultimately have "I w"
    using forecastLoop_invariant [OF w, of I] by blast
  with assms(2) f have 1: "portfolioBalance m = 0
       \<and> totalAssets m = propertyValues m + superBalance m + cashBuffer m"
    by (simp add: I_def)
  define scenario' where
    "scenario' = scenario \<lparr> profile := (profile scenario) \<lparr> returnPortfolioPa := x \<rparr> \<rparr>"
  have "forecastIteration scenario' s l v = forecastIteration scenario s l v" for s l v
    by (simp add: forecastIteration_def scenario'_def)
  then have "forecastLoop scenario' s l n v = forecastLoop scenario s l n v" for s l n v
    using forecastLoop_cong [of scenario' s l scenario n v] by simp
  then have "runForecast scenario' = runForecast scenario"
    by (simp add: runForecast_def scenario'_def)
  with 1 assms(1) show ?thesis
    by (simp add: scenario'_def)
qed

theorem portfolio_never_funded_witness:
  "\<exists>forecast m. runForecast exampleScenario = Some forecast \<and> m \<in> set forecast
     \<and> portfolioBalance m = 0
     \<and> totalAssets m = propertyValues m + superBalance m + cashBuffer m
     \<and> runForecast (exampleScenario
           \<lparr> profile := (profile exampleScenario) \<lparr> returnPortfolioPa := 1 / 2 \<rparr> \<rparr>)
         = Some forecast"
proof -
  obtain forecast where f: "runForecast exampleScenario = Some forecast"
    using runForecast_total [OF exampleScenario_finiteRates] by blast
  have "1 \<le> horizonYears exampleScenario"
    by (simp add: exampleScenario_def)
  from runForecast_first_month [OF f this] obtain m rest where "forecast = m # rest"
    by blast
  then have m: "m \<in> set forecast"
    by simp
  from portfolio_never_funded [OF f m, of "1 / 2"] f m show ?thesis
    by blast
qed

text \<open>
  C10. Every record of a forecast that \<open>runForecast\<close> returns has the same rental income:
  the sum over the properties of \<open>rentPwCents \<times> (52 - vacancyWeeksPa) / 12\<close>, with no
  growth or inflation factor. The property values of the same record are the sum that
  \<open>propertyValuesLoop\<close> takes with the growth factors of the record's month.
\<close>

theorem rental_income_constant:
  assumes "runForecast scenario = Some forecast" and "m \<in> set forecast" and "m' \<in> set forecast"
  shows "rentalIncome m =
           (\<Sum>p\<leftarrow>properties scenario. of_int (rentPwCents p * (52 - vacancyWeeksPa p)) / 12)
       \<and> rentalIncome m' = rentalIncome m
       \<and> propertyValuesLoop (properties scenario) ((of_int (month_F m) - 1) / 12) 0
           = Some (propertyValues m)"
proof -
  define sal where
    "sal = of_int (calculateAfterTaxIncome 12000000 (medicareLevy (profile scenario))) / (12::real)"
  define R where "R = (\<Sum>p\<leftarrow>properties scenario. of_int (rentPwCents p * (52 - vacancyWeeksPa p)) / (12::real))"
  define I where "I = (\<lambda>v::ForecastVars. \<forall>m \<in> set (forecast_f v). rentalIncome m = R
       \<and> propertyValuesLoop (properties scenario) ((of_int (month_F m) - 1) / 12) 0
           = Some (propertyValues m))"
  from runForecast_SomeD [OF assms(1)] obtain w
    where w: "forecastLoop scenario sal 500000 (horizonYears scenario * 12) forecastStart = Some w"
      and f: "forecast = forecast_f w"
    by (auto simp: sal_def)
  have "I forecastStart"
    by (simp add: I_def forecastStart_def)
  moreover have "I u'" if "I u" and "forecastIteration scenario sal 500000 u = Some u'" for u u'
    using that forecastIteration_SomeD [OF that(2)]
    by (auto simp: I_def R_def rentalIncomeLoop_sum)
  ultimately have "I w"
    using forecastLoop_invariant [OF w, of I] by blast
  with assms(2,3) f show ?thesis
    by (simp add: I_def R_def)
qed

theorem rental_income_constant_witness:
  "\<exists>forecast m m'. runForecast exampleScenario = Some forecast \<and> m \<in> set forecast
     \<and> m' \<in> set forecast \<and> month_F m = 1 \<and> rentalIncome m = 250000
     \<and> rentalIncome m' = rentalIncome m \<and> propertyValues m = 80000000"
proof -
  obtain forecast where f: "runForecast exampleScenario = Some forecast"
    using runForecast_total [OF exampleScenario_finiteRates] by blast
  have "1 \<le> horizonYears exampleScenario"
    by (simp add: exampleScenario_def)
  from runForecast_first_month [OF f this] obtain m rest where "forecast = m # rest"
    and m1: "month_F m = 1"
    by blast
  then have m: "m \<in> set forecast"
    by simp
  have "rentalIncome m = 250000" and "propertyValues m = 80000000"
    using rental_income_constant [OF f m m] m1
    by (simp_all add: exampleScenario_def exampleProperty_def Math_pow_zero_exponent)
  with f m m1 show ?thesis
    by blast
qed


section \<open>The summary extractor\<close>

lemma sampleForecast_index:
  "0 \<le> i \<Longrightarrow> i < 372 \<Longrightarrow> index_js sampleForecast i = Some (blankMonth (i + 1))"
  by (simp add: index_js_def sampleForecast_def add.commute)

lemma sampleForecast_outside:
  "372 \<le> i \<Longrightarrow> index_js sampleForecast i = None"
  by (simp add: index_js_def sampleForecast_def)

text \<open>
  C7, as stated, fails for the retirement snapshot. With a forecast of 372 months and a
  retirement 780 months away, the snapshot is the record at index 359, not the one at
  the last index 371. With a retirement 0.9 months away it is the record at index 0
  (the index is rounded down), not the one at index 1.
\<close>

theorem summary_retirement_counterexample:
  "retirement (generateSummary sampleForecast 65 0 0) = Some (blankMonth 360)
   \<and> index_js sampleForecast (int (length sampleForecast) - 1) = Some (blankMonth 372)
   \<and> blankMonth 360 \<noteq> blankMonth 372
   \<and> (65 - (2048877180000 - 0) / (36525 / 100 * 24 * 60 * 60 * 1000)) * 12 = (9 / 10 :: real)
   \<and> retirement (generateSummary sampleForecast 65 0 2048877180000) = index_js sampleForecast 0
   \<and> index_js sampleForecast 0 = Some (blankMonth 1)
   \<and> index_js sampleForecast 1 = Some (blankMonth 2)
   \<and> blankMonth 1 \<noteq> blankMonth 2"
proof -
  have len: "int (length sampleForecast) - 1 = 371"
    by (simp add: sampleForecast_def)
  have a: "retirement (generateSummary sampleForecast 65 0 0) = Some (blankMonth 360)"
    by (simp add: generateSummary_def Let_def sampleForecast_index sampleForecast_outside
        or_js_def len)
  have b: "retirement (generateSummary sampleForecast 65 0 2048877180000) = index_js sampleForecast 0"
    by (simp add: generateSummary_def Let_def sampleForecast_index sampleForecast_outside
        or_js_def len)
  show ?thesis
    using a b by (simp add: len sampleForecast_index blankMonth_def)
qed

text \<open>
  C7, amended. For a forecast that is not empty, the five snapshots are elements of it:
  index 0, and indices 119, 239 and 359 each replaced by the last index of a shorter
  forecast. The retirement snapshot is the record at the index
  \<open>\<lfloor>max(0, (retirementAge - currentAge) \<times> 12)\<rfloor>\<close> when the forecast has that index, and
  the snapshot of index 359 (so clamped) otherwise.
\<close>

theorem summary_selection:
  assumes "forecast \<noteq> []"
  shows "let s = generateSummary forecast retireAge birth dateNow;
             lastIndex = length forecast - 1;
             horizonEnd = forecast ! min 359 lastIndex;
             idx = \<lfloor>max 0 ((of_int retireAge - (of_int dateNow - of_int birth) / 31557600000) * 12 :: real)\<rfloor>
         in now s = Some (forecast ! 0)
          \<and> year10 s = Some (forecast ! min 119 lastIndex)
          \<and> year20 s = Some (forecast ! min 239 lastIndex)
          \<and> year30 s = Some horizonEnd
          \<and> retirement s = Some (if idx < int (length forecast) then forecast ! nat idx else horizonEnd)
          \<and> now s \<in> Some ` set forecast \<and> year10 s \<in> Some ` set forecast
          \<and> year20 s \<in> Some ` set forecast \<and> retirement s \<in> Some ` set forecast
          \<and> year30 s \<in> Some ` set forecast"
proof -
  define n where "n = length forecast"
  have n: "0 < n" using assms by (simp add: n_def)
  have idx: "index_js forecast i = (if 0 \<le> i \<and> i < int n then Some (forecast ! nat i) else None)" for i
    by (simp add: index_js_def n_def)
  have pick: "or_js (index_js forecast (int k)) (index_js forecast (int n - 1))
                = Some (forecast ! min k (n - 1))" for k
    using n by (auto simp: idx or_js_def min_def nat_diff_distrib' not_less)
  have mem: "forecast ! min k (n - 1) \<in> set forecast" for k
  proof (rule nth_mem)
    show "min k (n - 1) < length forecast"
      using assms by (cases forecast) (auto simp: n_def min_def)
  qed
  have y10: "year10 (generateSummary forecast retireAge birth dateNow) = Some (forecast ! min 119 (n - 1))"
    using pick [of 119] by (simp add: generateSummary_def Let_def n_def)
  have y20: "year20 (generateSummary forecast retireAge birth dateNow) = Some (forecast ! min 239 (n - 1))"
    using pick [of 239] by (simp add: generateSummary_def Let_def n_def)
  have y30: "year30 (generateSummary forecast retireAge birth dateNow) = Some (forecast ! min 359 (n - 1))"
    using pick [of 359] by (simp add: generateSummary_def Let_def n_def)
  have nw: "now (generateSummary forecast retireAge birth dateNow) = Some (forecast ! 0)"
    using n by (simp add: generateSummary_def Let_def idx)
  define i where "i = \<lfloor>max 0 ((of_int retireAge - (of_int dateNow - of_int birth) / 31557600000) * 12 :: real)\<rfloor>"
  have i0: "0 \<le> i" by (simp add: i_def)
  have ret: "retirement (generateSummary forecast retireAge birth dateNow)
               = Some (if i < int n then forecast ! nat i else forecast ! min 359 (n - 1))"
    using pick [of 359] i0
    by (simp add: generateSummary_def Let_def idx i_def or_js_def n_def)
  have retmem: "(if i < int n then forecast ! nat i else forecast ! min 359 (n - 1)) \<in> set forecast"
    using mem [of 359] i0 by (auto simp: n_def)
  show ?thesis
    unfolding Let_def
    using nw y10 y20 y30 ret retmem mem [of 119] mem [of 239] mem [of 359] n
    by (simp add: n_def i_def)
qed

theorem summary_selection_witness:
  "sampleForecast \<noteq> []
   \<and> now (generateSummary sampleForecast 65 0 0) = Some (blankMonth 1)
   \<and> year10 (generateSummary sampleForecast 65 0 0) = Some (blankMonth 120)
   \<and> year20 (generateSummary sampleForecast 65 0 0) = Some (blankMonth 240)
   \<and> year30 (generateSummary sampleForecast 65 0 0) = Some (blankMonth 360)
   \<and> retirement (generateSummary sampleForecast 65 0 0) = Some (blankMonth 360)"
proof -
  have ne: "sampleForecast \<noteq> []"
    by (simp add: sampleForecast_def)
  from summary_selection [OF ne, of 65 0 0] ne show ?thesis
    by (simp add: Let_def sampleForecast_def)
qed

section \<open>The stress transform\<close>

lemma deref_append: "deref h r = Some c \<Longrightarrow> deref (h @ xs) r = Some c"
  by (auto simp: deref_def nth_append split: if_splits)

lemma deref_alloc_new: "deref (h @ [c] @ xs) (length h) = Some c"
  by (simp add: deref_def nth_append)

lemma readObjects_append:
  "readObjects as h rs = Some xs \<Longrightarrow> readObjects as (h @ ys) rs = Some xs"
proof (induction rs arbitrary: xs)
  case Nil
  then show ?case by simp
next
  case (Cons r rs)
  then show ?case
    by (auto simp: deref_append split: Option.bind_splits)
qed

lemma mapObjects_refines:
  assumes "\<And>c x. as c = Some x \<Longrightarrow> \<exists>c'. callback c = Some c' \<and> as c' = Some (f x)"
  shows "readObjects as h rs = Some xs \<Longrightarrow>
         \<exists>ys rs'. mapObjects callback h rs = Some (h @ ys, rs')
                  \<and> readObjects as (h @ ys) rs' = Some (map f xs)"
proof (induction rs arbitrary: h xs)
  case Nil
  then show ?case by (auto intro: exI [of _ "[]"])
next
  case (Cons r rs)
  from Cons.prems obtain c x xs' where c: "deref h r = Some c" "as c = Some x"
    and xs': "readObjects as h rs = Some xs'" and xs: "xs = x # xs'"
    by (auto split: Option.bind_splits)
  from assms [OF c(2)] obtain c' where c': "callback c = Some c'" "as c' = Some (f x)"
    by blast
  have "readObjects as (h @ [c']) rs = Some xs'"
    using xs' by (rule readObjects_append)
  from Cons.IH [OF this] obtain ys rs' where
    m: "mapObjects callback (h @ [c']) rs = Some ((h @ [c']) @ ys, rs')"
    and rd: "readObjects as ((h @ [c']) @ ys) rs' = Some (map f xs')"
    by blast
  have "mapObjects callback h (r # rs) = Some (h @ ([c'] @ ys), length h # rs')"
    using c c' m by (simp add: alloc_def)
  moreover have "readObjects as (h @ ([c'] @ ys)) (length h # rs') = Some (map f xs)"
    using rd c'(2) deref_alloc_new [of h c' ys] by (simp add: xs)
  ultimately show ?case by blast
qed

lemma deref_at: "deref (xs @ c # zs) (length xs) = Some c"
  by (simp add: deref_def)

lemma readScenario_SomeD:
  assumes "readScenario h r = Some s"
  shows "\<exists>sc prof prs props lrs lns.
           deref h r = Some (ScenarioCell sc)
         \<and> deref h (profile_o sc) = Some (ProfileCell prof)
         \<and> deref h (properties_o sc) = Some (ArrayCell prs)
         \<and> readObjects asProperty h prs = Some props
         \<and> deref h (loans_o sc) = Some (ArrayCell lrs)
         \<and> readObjects asLoan h lrs = Some lns
         \<and> s = scenarioOf sc prof props lns"
  using assms
  by (auto simp: readScenario_def asScenario_def asProfile_def asArray_def scenarioOf_def
      split: Option.bind_splits cell.splits)

lemma readScenario_SomeI:
  assumes "deref h r = Some (ScenarioCell sc)"
    and "deref h (profile_o sc) = Some (ProfileCell prof)"
    and "deref h (properties_o sc) = Some (ArrayCell prs)"
    and "readObjects asProperty h prs = Some props"
    and "deref h (loans_o sc) = Some (ArrayCell lrs)"
    and "readObjects asLoan h lrs = Some lns"
  shows "readScenario h r = Some (scenarioOf sc prof props lns)"
  using assms
  by (simp add: readScenario_def asScenario_def asProfile_def asArray_def scenarioOf_def)

lemma readScenario_append:
  assumes "readScenario h r = Some s"
  shows "readScenario (h @ ys) r = Some s"
proof -
  from readScenario_SomeD [OF assms] obtain sc prof prs props lrs lns where
    a: "deref h r = Some (ScenarioCell sc)"
      "deref h (profile_o sc) = Some (ProfileCell prof)"
      "deref h (properties_o sc) = Some (ArrayCell prs)"
      "readObjects asProperty h prs = Some props"
      "deref h (loans_o sc) = Some (ArrayCell lrs)"
      "readObjects asLoan h lrs = Some lns"
    and s: "s = scenarioOf sc prof props lns"
    by blast
  show ?thesis
    unfolding s
    by (rule readScenario_SomeI)
       (rule a(1,2,3,5) [THEN deref_append] a(4,6) [THEN readObjects_append])+
qed

lemma stressedLoan_refines:
  "asLoan c = Some x \<Longrightarrow>
   \<exists>c'. stressedLoan b c = Some c'
        \<and> asLoan c' = Some (x \<lparr> annualRate := annualRate x + b / 100 \<rparr>)"
  by (simp add: stressedLoan_def asLoan_def)

lemma stressedProperty_refines:
  "asProperty c = Some x \<Longrightarrow>
   \<exists>c'. stressedProperty g w c = Some c'
        \<and> asProperty c' = Some (x \<lparr> valueGrowthPa := valueGrowthPa x - g / 100,
                                     vacancyWeeksPa := max (vacancyWeeksPa x) w \<rparr>)"
  by (simp add: stressedProperty_def asProperty_def)

lemma applyStressTest_scenarioOf:
  "applyStressTest (scenarioOf sc prof props lns) =
     scenarioOf sc' prof
       (map (\<lambda>x. x \<lparr> valueGrowthPa := valueGrowthPa x - stressGrowthHaircutPct_o sc / 100,
                     vacancyWeeksPa := max (vacancyWeeksPa x) (stressVacancyWeeks_o sc) \<rparr>) props)
       (map (\<lambda>x. x \<lparr> annualRate := annualRate x + stressRateBumpPct_o sc / 100 \<rparr>) lns)"
  if "sc' = sc \<lparr> loans_o := la, properties_o := pa \<rparr>"
  using that by (simp add: applyStressTest_def scenarioOf_def)

lemma applyStressTest_store_refines:
  assumes "readScenario h r = Some s"
  shows "\<exists>ys r'. applyStressTest_store h r = Some (h @ ys, r')
           \<and> length h \<le> r'
           \<and> readScenario (h @ ys) r' = Some (applyStressTest s)"
proof -
  from readScenario_SomeD [OF assms] obtain sc prof prs props lrs lns where
    a: "deref h r = Some (ScenarioCell sc)"
      "deref h (profile_o sc) = Some (ProfileCell prof)"
      "deref h (properties_o sc) = Some (ArrayCell prs)"
      "readObjects asProperty h prs = Some props"
      "deref h (loans_o sc) = Some (ArrayCell lrs)"
      "readObjects asLoan h lrs = Some lns"
    and s: "s = scenarioOf sc prof props lns"
    by blast
  define fL where "fL = (\<lambda>x::LoanDetails. x \<lparr> annualRate := annualRate x + stressRateBumpPct_o sc / 100 \<rparr>)"
  define fP where "fP = (\<lambda>x::Property. x \<lparr> valueGrowthPa := valueGrowthPa x - stressGrowthHaircutPct_o sc / 100,
                     vacancyWeeksPa := max (vacancyWeeksPa x) (stressVacancyWeeks_o sc) \<rparr>)"
  from mapObjects_refines [of asLoan "stressedLoan (stressRateBumpPct_o sc)" fL, OF _ a(6)]
  obtain ys1 lrs' where
    m1: "mapObjects (stressedLoan (stressRateBumpPct_o sc)) h lrs = Some (h @ ys1, lrs')"
    and r1: "readObjects asLoan (h @ ys1) lrs' = Some (map fL lns)"
    using stressedLoan_refines unfolding fL_def by blast
  define h2 where "h2 = h @ ys1 @ [ArrayCell lrs']"
  define la where "la = length (h @ ys1)"
  have al1: "alloc (h @ ys1) (ArrayCell lrs') = (h2, la)"
    by (simp add: alloc_def h2_def la_def)
  have p2: "deref h2 (properties_o sc) = Some (ArrayCell prs)"
    unfolding h2_def using a(3) by (rule deref_append)
  have rp2: "readObjects asProperty h2 prs = Some props"
    unfolding h2_def using a(4) by (rule readObjects_append)
  from mapObjects_refines [of asProperty
      "stressedProperty (stressGrowthHaircutPct_o sc) (stressVacancyWeeks_o sc)" fP, OF _ rp2]
  obtain ys2 prs' where
    m2: "mapObjects (stressedProperty (stressGrowthHaircutPct_o sc) (stressVacancyWeeks_o sc))
           h2 prs = Some (h2 @ ys2, prs')"
    and r2: "readObjects asProperty (h2 @ ys2) prs' = Some (map fP props)"
    using stressedProperty_refines unfolding fP_def by blast
  define pa where "pa = length (h2 @ ys2)"
  define sc' where "sc' = sc \<lparr> loans_o := la, properties_o := pa \<rparr>"
  define ys where "ys = ys1 @ [ArrayCell lrs'] @ ys2 @ [ArrayCell prs'] @ [ScenarioCell sc']"
  define r' where "r' = length (h2 @ ys2 @ [ArrayCell prs'])"
  have hy: "h @ ys = (h2 @ ys2 @ [ArrayCell prs']) @ [ScenarioCell sc']"
    by (simp add: ys_def h2_def)
  have run: "applyStressTest_store h r = Some (h @ ys, r')"
    using a(1,5) m1 al1 p2 m2
    by (simp add: applyStressTest_store_def asScenario_def asArray_def alloc_def
        pa_def sc'_def r'_def hy)
  have fresh: "length h \<le> r'"
    by (simp add: r'_def h2_def)
  have d_sc: "deref (h @ ys) r' = Some (ScenarioCell sc')"
    unfolding hy r'_def by (rule deref_at)
  have d_prof: "deref (h @ ys) (profile_o sc') = Some (ProfileCell prof)"
    using a(2) [THEN deref_append, of ys] by (simp add: sc'_def)
  have "h @ ys = (h2 @ ys2) @ ArrayCell prs' # [ScenarioCell sc']"
    by (simp add: ys_def h2_def)
  then have d_pa: "deref (h @ ys) (properties_o sc') = Some (ArrayCell prs')"
    using deref_at [of "h2 @ ys2" "ArrayCell prs'" "[ScenarioCell sc']"]
    by (simp add: sc'_def pa_def)
  have "h @ ys = (h @ ys1) @ ArrayCell lrs' # (ys2 @ [ArrayCell prs'] @ [ScenarioCell sc'])"
    by (simp add: ys_def)
  then have d_la: "deref (h @ ys) (loans_o sc') = Some (ArrayCell lrs')"
    using deref_at [of "h @ ys1" "ArrayCell lrs'" "ys2 @ [ArrayCell prs'] @ [ScenarioCell sc']"]
    by (simp add: sc'_def la_def)
  have rd_p: "readObjects asProperty (h @ ys) prs' = Some (map fP props)"
    using r2 [THEN readObjects_append, of "[ArrayCell prs'] @ [ScenarioCell sc']"]
    by (simp add: ys_def h2_def)
  have rd_l: "readObjects asLoan (h @ ys) lrs' = Some (map fL lns)"
    using r1 [THEN readObjects_append,
        of "[ArrayCell lrs'] @ ys2 @ [ArrayCell prs'] @ [ScenarioCell sc']"]
    by (simp add: ys_def)
  have "readScenario (h @ ys) r' = Some (scenarioOf sc' prof (map fP props) (map fL lns))"
    using d_sc d_prof d_pa rd_p d_la rd_l by (rule readScenario_SomeI)
  also have "scenarioOf sc' prof (map fP props) (map fL lns) = applyStressTest s"
    unfolding s fP_def fL_def
    by (rule applyStressTest_scenarioOf [symmetric]) (simp add: sc'_def)
  finally show ?thesis
    using run fresh by blast
qed

lemma exampleStore_reads: "readScenario exampleStore 5 = Some exampleScenario"
  by (simp add: readScenario_def exampleStore_def deref_def asScenario_def asProfile_def
      asArray_def asProperty_def asLoan_def exampleScenario_def)

text \<open>
  C6. Let \<open>r\<close> refer to the scenario \<open>s\<close> in the store \<open>h\<close>. In \<open>applyStressTest s\<close> every
  loan's annual rate is the old one plus \<open>stressRateBumpPct / 100\<close> and nothing else of a
  loan differs; every property's growth rate is the old one less
  \<open>stressGrowthHaircutPct / 100\<close>, its vacancy weeks are the larger of the old ones and
  \<open>stressVacancyWeeks\<close>, and nothing else of a property differs; every field of the
  scenario other than the two lists is the old one; and \<open>stressBorrowCapDownPct\<close> only
  passes through. The call on the store returns a reference \<open>r'\<close> that is not a
  reference of \<open>h\<close>, so not \<open>r\<close>; every cell of \<open>h\<close> is in the new store as it was;
  \<open>r\<close> still refers to \<open>s\<close>; and \<open>r'\<close> refers to \<open>applyStressTest s\<close>.
\<close>

theorem stress_test_transform:
  assumes "readScenario h r = Some s"
  shows "map annualRate (loans (applyStressTest s))
           = map (\<lambda>l. annualRate l + stressRateBumpPct s / 100) (loans s)
       \<and> map (\<lambda>l. l \<lparr> annualRate := 0 \<rparr>) (loans (applyStressTest s))
           = map (\<lambda>l. l \<lparr> annualRate := 0 \<rparr>) (loans s)
       \<and> map valueGrowthPa (properties (applyStressTest s))
           = map (\<lambda>p. valueGrowthPa p - stressGrowthHaircutPct s / 100) (properties s)
       \<and> map vacancyWeeksPa (properties (applyStressTest s))
           = map (\<lambda>p. max (vacancyWeeksPa p) (stressVacancyWeeks s)) (properties s)
       \<and> map (\<lambda>p. p \<lparr> valueGrowthPa := 0, vacancyWeeksPa := 0 \<rparr>) (properties (applyStressTest s))
           = map (\<lambda>p. p \<lparr> valueGrowthPa := 0, vacancyWeeksPa := 0 \<rparr>) (properties s)
       \<and> (applyStressTest s) \<lparr> loans := [], properties := [] \<rparr>
           = s \<lparr> loans := [], properties := [] \<rparr>
       \<and> applyStressTest (s \<lparr> stressBorrowCapDownPct := x \<rparr>)
           = (applyStressTest s) \<lparr> stressBorrowCapDownPct := x \<rparr>
       \<and> (\<exists>h' r'. applyStressTest_store h r = Some (h', r')
              \<and> length h \<le> r'
              \<and> take (length h) h' = h
              \<and> readScenario h' r = Some s
              \<and> readScenario h' r' = Some (applyStressTest s))"
proof -
  from applyStressTest_store_refines [OF assms] obtain ys r' where
    run: "applyStressTest_store h r = Some (h @ ys, r')" and fresh: "length h \<le> r'"
    and new: "readScenario (h @ ys) r' = Some (applyStressTest s)"
    by blast
  have old: "readScenario (h @ ys) r = Some s"
    using assms by (rule readScenario_append)
  have store: "\<exists>h' r'. applyStressTest_store h r = Some (h', r')
              \<and> length h \<le> r'
              \<and> take (length h) h' = h
              \<and> readScenario h' r = Some s
              \<and> readScenario h' r' = Some (applyStressTest s)"
    using run fresh old new by (intro exI [of _ "h @ ys"] exI [of _ r']) simp
  have pure: "map annualRate (loans (applyStressTest s))
           = map (\<lambda>l. annualRate l + stressRateBumpPct s / 100) (loans s)"
    "map (\<lambda>l. l \<lparr> annualRate := 0 \<rparr>) (loans (applyStressTest s))
           = map (\<lambda>l. l \<lparr> annualRate := 0 \<rparr>) (loans s)"
    "map valueGrowthPa (properties (applyStressTest s))
           = map (\<lambda>p. valueGrowthPa p - stressGrowthHaircutPct s / 100) (properties s)"
    "map vacancyWeeksPa (properties (applyStressTest s))
           = map (\<lambda>p. max (vacancyWeeksPa p) (stressVacancyWeeks s)) (properties s)"
    "map (\<lambda>p. p \<lparr> valueGrowthPa := 0, vacancyWeeksPa := 0 \<rparr>) (properties (applyStressTest s))
           = map (\<lambda>p. p \<lparr> valueGrowthPa := 0, vacancyWeeksPa := 0 \<rparr>) (properties s)"
    "(applyStressTest s) \<lparr> loans := [], properties := [] \<rparr>
           = s \<lparr> loans := [], properties := [] \<rparr>"
    "applyStressTest (s \<lparr> stressBorrowCapDownPct := x \<rparr>)
           = (applyStressTest s) \<lparr> stressBorrowCapDownPct := x \<rparr>"
    by (simp_all add: applyStressTest_def comp_def)
  from pure store show ?thesis
    by blast
qed

theorem stress_test_transform_witness:
  "readScenario exampleStore 5 = Some exampleScenario
   \<and> map annualRate (loans (applyStressTest exampleScenario)) = [8 / 100]
   \<and> map valueGrowthPa (properties (applyStressTest exampleScenario)) = [5 / 100]
   \<and> map vacancyWeeksPa (properties (applyStressTest exampleScenario)) = [4]
   \<and> (\<exists>h' r'. applyStressTest_store exampleStore 5 = Some (h', r')
          \<and> length exampleStore \<le> r'
          \<and> take (length exampleStore) h' = exampleStore
          \<and> readScenario h' 5 = Some exampleScenario
          \<and> readScenario h' r' = Some (applyStressTest exampleScenario))"
proof -
  note t = stress_test_transform [OF exampleStore_reads, of 0]
  have "map annualRate (loans (applyStressTest exampleScenario)) = [8 / 100]"
    and "map valueGrowthPa (properties (applyStressTest exampleScenario)) = [5 / 100]"
    and "map vacancyWeeksPa (properties (applyStressTest exampleScenario)) = [4]"
    using t by (simp_all add: exampleScenario_def exampleProperty_def scenarioLoan_def)
  with t exampleStore_reads show ?thesis
    by blast
qed
end
